theory Spec2Isabelle
  imports Main
begin

section \<open>Configuration (api.py, lines 25-30)\<close>

text \<open>
  Sizes are byte counts and Python integers are unbounded, so they are \<open>int\<close>.
  Timestamps (\<open>datetime\<close> values) are integers counting seconds; \<open>timedelta(hours=h)\<close>
  is \<open>h * 3600\<close>.
\<close>

definition UPLOAD_FOLDER :: string where
  "UPLOAD_FOLDER = ''telegram_files''"

definition MAX_USER_STORAGE :: int where
  "MAX_USER_STORAGE = 100 * 1024 * 1024"

definition MAX_TOTAL_STORAGE :: int where
  "MAX_TOTAL_STORAGE = 700 * 1024 * 1024"

definition MESSAGE_AUTO_DELETE_HOURS :: int where
  "MESSAGE_AUTO_DELETE_HOURS = 24"

definition POLLING_LIMIT :: int where
  "POLLING_LIMIT = 50"

text \<open>
  \<open>app.config['MAX_CONTENT_LENGTH']\<close> (line 20): the largest request body the
  application reads.
\<close>

definition MAX_CONTENT_LENGTH :: int where
  "MAX_CONTENT_LENGTH = 30 * 1024 * 1024"

text \<open>The literal \<open>30 * 1024 * 1024\<close> of \<open>send_file\<close> (line 487).\<close>

definition MAX_FILE_SIZE :: int where
  "MAX_FILE_SIZE = 30 * 1024 * 1024"

definition hours :: "int \<Rightarrow> int" where
  "hours h = h * 3600"

section \<open>Database models (api.py, lines 37-139)\<close>

text \<open>
  One record per SQLAlchemy model, one field per column the code reads or writes. A
  nullable column is an \<open>option\<close>. The primary key \<open>Message.id\<close> is called
  \<open>update_id\<close>, the name \<open>to_dict\<close> gives it, since \<open>id\<close> is taken in HOL. The fields
  of \<open>UserWebhook\<close> that share a name with a field of \<open>User\<close> carry the prefix \<open>wh_\<close>.
\<close>

record user =
  user_id :: string
  username :: string
  email :: string
  api_key :: string
  storage_used :: int
  message_count :: int
  is_active :: bool
  is_admin :: bool
  created_at :: int
  last_activity :: int

record message =
  update_id :: int
  message_id :: string
  message_type :: string
  text_content :: "string option"
  file_id :: "string option"
  original_name :: "string option"
  file_name :: "string option"
  file_path :: "string option"
  file_size :: "int option"
  mime_type :: "string option"
  reply_to_message_id :: "string option"
  reply_to_sender_id :: "string option"
  reply_to_text :: "string option"
  sender_id :: string
  sender_username :: string
  receiver_id :: string
  sent_at :: int
  expires_at :: int
  is_delivered :: bool
  read_count :: int
  webhook_sent :: bool

record user_webhook =
  wh_user_id :: string
  webhook_url :: string
  secret_token :: "string option"
  wh_is_active :: bool
  wh_created_at :: int
  last_triggered :: "int option"

text \<open>
  The state every operation works on: the three tables, rows in insertion order, and
  the set of paths that exist on disk (what \<open>os.path.exists\<close> answers, what
  \<open>file.save\<close> and \<open>os.remove\<close> change).
\<close>

record db =
  users :: "user list"
  messages :: "message list"
  webhooks :: "user_webhook list"
  disk :: "string set"

datatype error =
    ApiKeyRequired
  | InvalidApiKey
  | JsonRequired
  | RegistrationFieldsRequired
  | UserExists
  | ReceiverRequired
  | TextRequired
  | ReceiverNotFound
  | NoFileProvided
  | NoFileSelected
  | FileTooLarge
  | StorageLimitExceeded
  | FileTypeNotAllowed
  | FileNotFound
  | AccessDenied
  | FileNotFoundOnServer
  | WebhookUrlRequired
  | UserIdRequired
  | ServerError

section \<open>Python and ORM idioms\<close>

text \<open>Truthiness of an optional string and of an optional integer.\<close>

definition truthy_str :: "string option \<Rightarrow> bool" where
  "truthy_str v = (case v of None \<Rightarrow> False | Some t \<Rightarrow> t \<noteq> [])"

definition truthy_int :: "int option \<Rightarrow> bool" where
  "truthy_int v = (case v of None \<Rightarrow> False | Some n \<Rightarrow> n \<noteq> 0)"

text \<open>\<open>x or 0\<close> for an optional integer.\<close>

definition or_zero :: "int option \<Rightarrow> int" where
  "or_zero v = (case v of None \<Rightarrow> 0 | Some n \<Rightarrow> n)"

text \<open>\<open>query.filter(...).first()\<close>: the first row that satisfies the filter, by position.\<close>

fun find_index_of :: "('a \<Rightarrow> bool) \<Rightarrow> 'a list \<Rightarrow> nat option" where
  "find_index_of P [] = None"
| "find_index_of P (x # xs) =
     (if P x then Some 0 else map_option Suc (find_index_of P xs))"

text \<open>
  Fetch the first matching row and, when there is one, assign to its attributes: the
  pattern \<open>row = Model.query.filter_by(...).first(); if row: row.attr = ...\<close>.
\<close>

fun upd_first :: "('a \<Rightarrow> bool) \<Rightarrow> ('a \<Rightarrow> 'a) \<Rightarrow> 'a list \<Rightarrow> 'a list" where
  "upd_first P f [] = []"
| "upd_first P f (x # xs) = (if P x then f x # xs else x # upd_first P f xs)"

text \<open>\<open>db.session.delete(message)\<close> removes the row with that primary key.\<close>

definition delete_message :: "message \<Rightarrow> db \<Rightarrow> db" where
  "delete_message m s =
     s\<lparr>messages := filter (\<lambda>x. update_id x \<noteq> update_id m) (messages s)\<rparr>"

text \<open>
  \<open>if message.file_path and os.path.exists(message.file_path): os.remove(...)\<close>: the
  test, and the removal.
\<close>

definition file_on_disk :: "message \<Rightarrow> db \<Rightarrow> bool" where
  "file_on_disk m s =
     (case file_path m of None \<Rightarrow> False | Some p \<Rightarrow> p \<noteq> [] \<and> p \<in> disk s)"

definition remove_file :: "message \<Rightarrow> db \<Rightarrow> db" where
  "remove_file m s =
     (case file_path m of None \<Rightarrow> s | Some p \<Rightarrow> s\<lparr>disk := disk s - {p}\<rparr>)"

text \<open>
  A new row gets the next integer primary key. The column is a plain
  \<open>INTEGER PRIMARY KEY\<close> of SQLite: one more than the largest key in the table, and 1 in
  an empty table.
\<close>

definition next_update_id :: "message list \<Rightarrow> int" where
  "next_update_id ms = fold max (map update_id ms) 0 + 1"

text \<open>\<open>.limit(n)\<close>: the first \<open>n\<close> rows; SQLite reads a negative limit as no limit.\<close>

definition limit_rows :: "int \<Rightarrow> 'a list \<Rightarrow> 'a list" where
  "limit_rows n xs = (if n < 0 then xs else take (nat n) xs)"

section \<open>Helper functions (api.py, lines 168-228)\<close>

text \<open>
  File names are byte strings. \<open>str.lower\<close> maps the letters A-Z to a-z; on every other
  byte it is the identity here (no character outside ASCII lowers to a string of the
  allow-list).
\<close>

definition lower_char :: "char \<Rightarrow> char" where
  "lower_char c =
     (case map_of (zip ''ABCDEFGHIJKLMNOPQRSTUVWXYZ'' ''abcdefghijklmnopqrstuvwxyz'') c of
        None \<Rightarrow> c
      | Some d \<Rightarrow> d)"

definition lower :: "string \<Rightarrow> string" where
  "lower t = map lower_char t"

text \<open>
  \<open>t.rsplit(sep, 1)\<close> for a one-character separator: the string itself when the
  separator does not occur, else what stands before and after its last occurrence.
\<close>

definition rsplit1 :: "char \<Rightarrow> string \<Rightarrow> string list" where
  "rsplit1 sep t =
     (if sep \<in> set t
      then [rev (tl (dropWhile (\<lambda>c. c \<noteq> sep) (rev t))), rev (takeWhile (\<lambda>c. c \<noteq> sep) (rev t))]
      else [t])"

text \<open>List indexing with a non-negative index; \<open>None\<close> is Python's IndexError.\<close>

definition index :: "'a list \<Rightarrow> nat \<Rightarrow> 'a option" where
  "index xs i = (if i < length xs then Some (xs ! i) else None)"

definition ALLOWED_EXTENSIONS :: "string set" where
  "ALLOWED_EXTENSIONS =
     {''txt'', ''pdf'', ''png'', ''jpg'', ''jpeg'', ''gif'', ''doc'', ''docx'',
      ''zip'', ''mp3'', ''mp4'', ''tgs'', ''webp'', ''json'', ''svg'', ''avi'',
      ''mov'', ''wav'', ''ogg'', ''rar'', ''7z'', ''ppt'', ''pptx'', ''xls'', ''xlsx''}"

text \<open>
  \<open>'.' in filename and filename.rsplit('.', 1)[1].lower() in ALLOWED_EXTENSIONS\<close>. The
  \<open>and\<close> short-circuits, so the index is only taken when a dot occurs; the \<open>None\<close>
  branch (IndexError) is never reached, see \<open>rsplit1_index\<close>.
\<close>

definition allowed_file :: "string \<Rightarrow> bool" where
  "allowed_file filename =
     (CHR ''.'' \<in> set filename \<and>
      (case index (rsplit1 CHR ''.'' filename) 1 of
         None \<Rightarrow> False
       | Some ext \<Rightarrow> lower ext \<in> ALLOWED_EXTENSIONS))"

text \<open>
  \<open>get_total_storage_used\<close>: the SQL sum of \<open>file_size\<close> over the rows where it is not
  null, and 0 when there is none.
\<close>

definition get_total_storage_used :: "db \<Rightarrow> int" where
  "get_total_storage_used s = sum_list (List.map_filter file_size (messages s))"

text \<open>
  What \<open>requests.post\<close> does is the environment's choice: it returns a response with
  a status code, or raises (connection error, timeout).
\<close>

datatype http_outcome = Response int | TransportFailure

text \<open>
  \<open>send_webhook_notification(user_id, message_data)\<close>. Of \<open>message_data\<close> only the
  key \<open>message_id\<close> is read, so the model takes that string. The whole body is
  inside \<open>try\<close>: an exception of the call returns \<open>False\<close> before anything is assigned.
\<close>

definition send_webhook_notification ::
  "string \<Rightarrow> string \<Rightarrow> int \<Rightarrow> http_outcome \<Rightarrow> db \<Rightarrow> bool \<times> db" where
  "send_webhook_notification uid mid now outcome s =
     (case find_index_of (\<lambda>w. wh_user_id w = uid \<and> wh_is_active w) (webhooks s) of
        None \<Rightarrow> (False, s)
      | Some i \<Rightarrow>
          (case outcome of
             TransportFailure \<Rightarrow> (False, s)
           | Response status_code \<Rightarrow>
               (let s1 = s\<lparr>webhooks := (webhooks s)[i := (webhooks s ! i)\<lparr>last_triggered := Some now\<rparr>]\<rparr>;
                    s2 = s1\<lparr>messages :=
                           upd_first (\<lambda>m. message_id m = mid) (\<lambda>m. m\<lparr>webhook_sent := True\<rparr>)
                             (messages s1)\<rparr>
                in (status_code = 200, s2))))"

text \<open>The paperclip sign U+1F4CE of \<open>get_message_preview\<close>, as its four UTF-8 bytes.\<close>

definition paperclip :: string where
  "paperclip = [char_of (240 :: nat), char_of (159 :: nat), char_of (147 :: nat), char_of (142 :: nat)]"

text \<open>An optional string inside an f-string: \<open>None\<close> prints as the word None.\<close>

definition fmt :: "string option \<Rightarrow> string" where
  "fmt v = (case v of None \<Rightarrow> ''None'' | Some t \<Rightarrow> t)"

definition get_message_preview :: "message \<Rightarrow> string option" where
  "get_message_preview m =
     (if message_type m = ''text'' then text_content m
      else if message_type m = ''file'' then
        Some (paperclip @ '' '' @ fmt (original_name m) @
              (if truthy_str (text_content m) then '' - '' @ fmt (text_content m) else []))
      else if message_type m = ''reply'' then text_content m
      else Some ''Message'')"

section \<open>Retention and eviction (api.py, lines 230-312)\<close>

text \<open>
  The body of the \<open>for\<close> loop of \<open>cleanup_old_messages\<close>, for one message: remove the
  file if it is there; if \<open>message.file_size\<close> is truthy, fetch the sender and lower both
  counters, clamped at 0; delete the row.
\<close>

definition cleanup_message :: "message \<Rightarrow> db \<Rightarrow> db" where
  "cleanup_message m s =
     (let s1 = (if file_on_disk m s then remove_file m s else s);
          s2 = (if truthy_int (file_size m)
                then s1\<lparr>users :=
                       upd_first (\<lambda>u. user_id u = sender_id m)
                         (\<lambda>u. u\<lparr>storage_used := max 0 (storage_used u - or_zero (file_size m)),
                                message_count := max 0 (message_count u - 1)\<rparr>)
                         (users s1)\<rparr>
                else s1)
      in delete_message m s2)"

definition cleanup_old_messages :: "int \<Rightarrow> db \<Rightarrow> db" where
  "cleanup_old_messages now s =
     (let cutoff_time = now - hours MESSAGE_AUTO_DELETE_HOURS;
          old_messages = filter (\<lambda>m. sent_at m < cutoff_time) (messages s)
      in fold cleanup_message old_messages s)"

text \<open>
  The first loop of \<open>enforce_storage_limits\<close> (lines 260-273). \<open>total_storage\<close> is read
  once before the loop; \<open>deleted_size\<close> grows only when the file was on disk. The rows
  come from a query on \<open>file_size IS NOT NULL\<close>, so \<open>or_zero\<close> reads the size.
\<close>

fun global_loop :: "int \<Rightarrow> message list \<Rightarrow> int \<Rightarrow> db \<Rightarrow> db" where
  "global_loop total_storage [] deleted_size s = s"
| "global_loop total_storage (m # ms) deleted_size s =
     (if total_storage - deleted_size \<le> MAX_TOTAL_STORAGE then s
      else
        (let on_disk = file_on_disk m s;
             s1 = (if on_disk then remove_file m s else s);
             deleted_size' = (if on_disk then deleted_size + or_zero (file_size m) else deleted_size);
             s2 = s1\<lparr>users :=
                    upd_first (\<lambda>u. user_id u = sender_id m)
                      (\<lambda>u. u\<lparr>storage_used := max 0 (storage_used u - or_zero (file_size m)),
                             message_count := max 0 (message_count u - 1)\<rparr>)
                      (users s1)\<rparr>
         in global_loop total_storage ms deleted_size' (delete_message m s2)))"

text \<open>
  The inner loop of the second part (lines 286-296), for the user in row \<open>i\<close> of the
  table. The test reads the user's counter as it is now, so after the assignments of
  earlier rounds, and subtracts \<open>deleted_size\<close> from it.
\<close>

fun user_loop :: "nat \<Rightarrow> message list \<Rightarrow> int \<Rightarrow> db \<Rightarrow> db" where
  "user_loop i [] deleted_size s = s"
| "user_loop i (m # ms) deleted_size s =
     (if storage_used (users s ! i) - deleted_size \<le> MAX_USER_STORAGE then s
      else
        (let on_disk = file_on_disk m s;
             s1 = (if on_disk then remove_file m s else s);
             deleted_size' = (if on_disk then deleted_size + or_zero (file_size m) else deleted_size);
             u = users s1 ! i;
             s2 = s1\<lparr>users :=
                    (users s1)[i := u\<lparr>storage_used := storage_used u - or_zero (file_size m),
                                      message_count := message_count u - 1\<rparr>]\<rparr>
         in user_loop i ms deleted_size' (delete_message m s2)))"

text \<open>
  \<open>order_by(Message.sent_at.asc())\<close> is a stable sort of the rows in table order (SQL
  leaves the order of rows with equal keys open).
\<close>

definition enforce_user :: "nat \<Rightarrow> db \<Rightarrow> db" where
  "enforce_user i s =
     (let u = users s ! i in
      if storage_used u > MAX_USER_STORAGE
      then user_loop i
             (sort_key sent_at
                (filter (\<lambda>m. sender_id m = user_id u \<and> file_size m \<noteq> None) (messages s)))
             0 s
      else s)"

definition enforce_storage_limits :: "db \<Rightarrow> db" where
  "enforce_storage_limits s =
     (let total_storage = get_total_storage_used s;
          s1 = (if total_storage > MAX_TOTAL_STORAGE
                then global_loop total_storage
                       (sort_key sent_at (filter (\<lambda>m. file_size m \<noteq> None) (messages s))) 0 s
                else s)
      in fold enforce_user [0 ..< length (users s1)] s1)"

text \<open>One round of \<open>background_cleanup\<close>, at time \<open>now\<close>.\<close>

definition background_cleanup_round :: "int \<Rightarrow> db \<Rightarrow> db" where
  "background_cleanup_round now s = enforce_storage_limits (cleanup_old_messages now s)"

section \<open>Authentication (api.py, lines 142-165)\<close>

text \<open>
  \<open>require_api_key\<close>: the header \<open>X-API-Key\<close> may be absent. The user found is
  \<open>request.user\<close>, here the position of its row; its \<open>last_activity\<close> is committed
  before the handler runs, so it stays also when the handler answers with an error.
  A handler returns its answer and the database it leaves. \<open>ServerError\<close> is the
  answer 500 of a handler's \<open>except Exception\<close> branch.
\<close>

definition require_api_key :: "int \<Rightarrow> string option \<Rightarrow> db \<Rightarrow> error + (nat \<times> db)" where
  "require_api_key now key s =
     (if \<not> truthy_str key then Inl ApiKeyRequired
      else
        (case find_index_of (\<lambda>u. Some (api_key u) = key \<and> is_active u) (users s) of
           None \<Rightarrow> Inl InvalidApiKey
         | Some i \<Rightarrow> Inr (i, s\<lparr>users := (users s)[i := (users s ! i)\<lparr>last_activity := now\<rparr>]\<rparr>)))"

definition with_api_key ::
  "int \<Rightarrow> string option \<Rightarrow> db \<Rightarrow> (nat \<Rightarrow> db \<Rightarrow> (error + 'a) \<times> db) \<Rightarrow> (error + 'a) \<times> db" where
  "with_api_key now key s handler =
     (case require_api_key now key s of
        Inl e \<Rightarrow> (Inl e, s)
      | Inr (i, s0) \<Rightarrow> handler i s0)"

section \<open>Requests (api.py, lines 319-769)\<close>

text \<open>
  A JSON body and a form are association lists of string fields; \<open>data.get(k)\<close> is
  \<open>map_of data k\<close>. An absent body is \<open>None\<close>; \<open>not data\<close> holds for it and for the
  empty object. The random tokens of \<open>secrets.token_hex\<close> are arguments.
\<close>

type_synonym fields = "(string \<times> string) list"

definition no_data :: "fields option \<Rightarrow> bool" where
  "no_data data = (case data of None \<Rightarrow> True | Some d \<Rightarrow> d = [])"

definition get_field :: "fields option \<Rightarrow> string \<Rightarrow> string option" where
  "get_field data k = (case data of None \<Rightarrow> None | Some d \<Rightarrow> map_of d k)"

definition register_user :: "int \<Rightarrow> string \<Rightarrow> fields option \<Rightarrow> db \<Rightarrow> (error + user) \<times> db" where
  "register_user now token data s =
     (if no_data data then (Inl JsonRequired, s)
      else
        (let uid = get_field data ''user_id'';
             uname = get_field data ''username'';
             mail = get_field data ''email''
         in if \<not> truthy_str uid \<or> \<not> truthy_str uname \<or> \<not> truthy_str mail
            then (Inl RegistrationFieldsRequired, s)
            else if find_index_of
                      (\<lambda>u. Some (user_id u) = uid \<or> Some (username u) = uname \<or> Some (email u) = mail)
                      (users s) \<noteq> None
            then (Inl UserExists, s)
            else
              (let u = \<lparr>user_id = the uid, username = the uname, email = the mail,
                        api_key = token, storage_used = 0, message_count = 0,
                        is_active = True, is_admin = False,
                        created_at = now, last_activity = now\<rparr>
               in (Inr u, s\<lparr>users := users s @ [u]\<rparr>))))"

text \<open>
  The reply fields both send routes compute (lines 403-410 and 506-513): the sender and
  the preview of the message replied to, when it is still stored.
\<close>

definition reply_fields :: "string option \<Rightarrow> db \<Rightarrow> string option \<times> string option" where
  "reply_fields reply_to s =
     (if truthy_str reply_to
      then (case find (\<lambda>m. Some (message_id m) = reply_to) (messages s) of
              None \<Rightarrow> (None, None)
            | Some original_message \<Rightarrow>
                (Some (sender_id original_message), get_message_preview original_message))
      else (None, None))"

definition send_message_handler ::
  "int \<Rightarrow> string \<Rightarrow> fields option \<Rightarrow> nat \<Rightarrow> db \<Rightarrow> (error + message) \<times> db" where
  "send_message_handler now token data i s =
     (let sender = users s ! i in
      if no_data data then (Inl JsonRequired, s)
      else
        (let rid = get_field data ''receiver_id'';
             txt = get_field data ''text'';
             reply_to = get_field data ''reply_to_message_id''
         in if \<not> truthy_str rid then (Inl ReceiverRequired, s)
            else if \<not> truthy_str txt then (Inl TextRequired, s)
            else if find_index_of (\<lambda>u. Some (user_id u) = rid \<and> is_active u) (users s) = None
            then (Inl ReceiverNotFound, s)
            else
              (let (reply_sender, reply_text) = reply_fields reply_to s;
                   m = \<lparr>update_id = next_update_id (messages s),
                        message_id = token,
                        message_type = (if truthy_str reply_to then ''reply'' else ''text''),
                        text_content = txt,
                        file_id = None, original_name = None, file_name = None,
                        file_path = None, file_size = None, mime_type = None,
                        reply_to_message_id = reply_to,
                        reply_to_sender_id = reply_sender,
                        reply_to_text = reply_text,
                        sender_id = user_id sender,
                        sender_username = username sender,
                        receiver_id = the rid,
                        sent_at = now,
                        expires_at = now + hours MESSAGE_AUTO_DELETE_HOURS,
                        is_delivered = False, read_count = 0, webhook_sent = False\<rparr>
               in (Inr m,
                   s\<lparr>messages := messages s @ [m],
                     users := (users s)[i := sender\<lparr>message_count := message_count sender + 1\<rparr>]\<rparr>))))"

definition send_message ::
  "int \<Rightarrow> string option \<Rightarrow> string \<Rightarrow> fields option \<Rightarrow> db \<Rightarrow> (error + message) \<times> db" where
  "send_message now key token data s =
     with_api_key now key s (send_message_handler now token data)"

text \<open>
  The uploaded file: its name, its length in bytes (what \<open>seek(0, 2); tell()\<close> gives)
  and its content type. \<open>secure_filename\<close> is werkzeug's and is an argument.
  \<open>body_length\<close> is the length of the whole multipart request body, which holds the
  file's bytes and the form fields. The body is parsed when line 460 first reads
  \<open>request.files\<close>; a body longer than \<open>MAX_CONTENT_LENGTH\<close> raises there
  (413 Request Entity Too Large), inside the \<open>try\<close>, and the handler answers 500.
\<close>

record upload =
  filename :: string
  content_length :: int
  content_type :: "string option"

definition send_file_handler ::
  "int \<Rightarrow> string \<Rightarrow> string \<Rightarrow> (string \<Rightarrow> string) \<Rightarrow> int \<Rightarrow> upload option \<Rightarrow> fields
     \<Rightarrow> nat \<Rightarrow> db \<Rightarrow> (error + message) \<times> db" where
  "send_file_handler now file_token message_token secure_filename body_length file form i s =
     (let sender = users s ! i in
      if body_length > MAX_CONTENT_LENGTH then (Inl ServerError, s)
      else
      case file of
        None \<Rightarrow> (Inl NoFileProvided, s)
      | Some f \<Rightarrow>
          if filename f = [] then (Inl NoFileSelected, s)
          else
            (let rid = map_of form ''receiver_id'';
                 caption = (case map_of form ''caption'' of None \<Rightarrow> [] | Some c \<Rightarrow> c);
                 reply_to = map_of form ''reply_to_message_id'';
                 nbytes = content_length f
             in if \<not> truthy_str rid then (Inl ReceiverRequired, s)
                else if nbytes > MAX_FILE_SIZE then (Inl FileTooLarge, s)
                else if storage_used sender + nbytes > MAX_USER_STORAGE
                then (Inl StorageLimitExceeded, s)
                else if find_index_of (\<lambda>u. Some (user_id u) = rid \<and> is_active u) (users s) = None
                then (Inl ReceiverNotFound, s)
                else
                  (let (reply_sender, reply_text) = reply_fields reply_to s
                   in if filename f \<noteq> [] \<and> allowed_file (filename f)
                      then
                        (let name = secure_filename (filename f);
                             unique_filename = file_token @ ''_'' @ name;
                             path = UPLOAD_FOLDER @ ''/'' @ unique_filename;
                             m = \<lparr>update_id = next_update_id (messages s),
                                  message_id = message_token,
                                  message_type = ''file'',
                                  text_content = Some caption,
                                  file_id = Some file_token,
                                  original_name = Some name,
                                  file_name = Some unique_filename,
                                  file_path = Some path,
                                  file_size = Some nbytes,
                                  mime_type = content_type f,
                                  reply_to_message_id = reply_to,
                                  reply_to_sender_id = reply_sender,
                                  reply_to_text = reply_text,
                                  sender_id = user_id sender,
                                  sender_username = username sender,
                                  receiver_id = the rid,
                                  sent_at = now,
                                  expires_at = now + hours MESSAGE_AUTO_DELETE_HOURS,
                                  is_delivered = False, read_count = 0, webhook_sent = False\<rparr>
                         in (Inr m,
                             s\<lparr>messages := messages s @ [m],
                               users := (users s)[i := sender\<lparr>storage_used := storage_used sender + nbytes,
                                                              message_count := message_count sender + 1\<rparr>],
                               disk := insert path (disk s)\<rparr>))
                      else (Inl FileTypeNotAllowed, s))))"

definition send_file ::
  "int \<Rightarrow> string option \<Rightarrow> string \<Rightarrow> string \<Rightarrow> (string \<Rightarrow> string) \<Rightarrow> int \<Rightarrow> upload option
     \<Rightarrow> fields \<Rightarrow> db \<Rightarrow> (error + message) \<times> db" where
  "send_file now key file_token message_token secure_filename body_length file form s =
     with_api_key now key s
       (send_file_handler now file_token message_token secure_filename body_length file form)"

text \<open>
  The long poll of \<open>get_updates\<close> (lines 597-603) runs the query once per second until
  it has rows or the time is up; \<open>rounds\<close> counts the rounds left. Nothing else runs
  in between here, so every round reads the same rows.
\<close>

fun poll_loop :: "nat \<Rightarrow> message list \<Rightarrow> message list" where
  "poll_loop 0 rows = rows"
| "poll_loop (Suc rounds) rows = (if rows \<noteq> [] then rows else poll_loop rounds rows)"

text \<open>
  The loop of lines 610-616 marks a returned row that was not delivered yet.
\<close>

definition mark_delivered :: "message \<Rightarrow> message" where
  "mark_delivered m =
     (if \<not> is_delivered m then m\<lparr>is_delivered := True, read_count := read_count m + 1\<rparr> else m)"

text \<open>
  \<open>get_updates\<close>: the query arguments \<open>offset\<close>, \<open>limit\<close> and \<open>timeout\<close> may be absent.
  The answer holds the rows as \<open>to_dict\<close> saw them, that is before they are marked, and
  \<open>next_offset\<close>.
\<close>

definition get_updates_handler ::
  "int option \<Rightarrow> int option \<Rightarrow> int option \<Rightarrow> nat \<Rightarrow> db \<Rightarrow> (error + message list \<times> int) \<times> db" where
  "get_updates_handler offset limit timeout i s =
     (let user = users s ! i;
          lim = (case limit of None \<Rightarrow> POLLING_LIMIT | Some n \<Rightarrow> n);
          tmo = (case timeout of None \<Rightarrow> 0 | Some n \<Rightarrow> n);
          query = (case offset of
                     None \<Rightarrow> filter (\<lambda>m. receiver_id m = user_id user) (messages s)
                   | Some off \<Rightarrow>
                       filter (\<lambda>m. receiver_id m = user_id user \<and> update_id m > off) (messages s));
          rows = limit_rows lim (sort_key update_id query);
          msgs = (if tmo > 0 then poll_loop (nat tmo) rows else rows);
          updates = msgs;
          max_update_id = fold (\<lambda>m acc. max acc (update_id m)) msgs (or_zero offset);
          s' = s\<lparr>messages := map (\<lambda>m. if m \<in> set msgs then mark_delivered m else m) (messages s)\<rparr>;
          next_offset = (if updates \<noteq> [] then max_update_id + 1 else or_zero offset)
      in (Inr (updates, next_offset), s'))"

definition get_updates ::
  "int \<Rightarrow> string option \<Rightarrow> int option \<Rightarrow> int option \<Rightarrow> int option \<Rightarrow> db
     \<Rightarrow> (error + message list \<times> int) \<times> db" where
  "get_updates now key offset limit timeout s =
     with_api_key now key s (get_updates_handler offset limit timeout)"

text \<open>
  \<open>get_chat_history\<close>: newest first, rows sent at the same time in table order, then
  \<open>.offset(offset).limit(limit)\<close>; SQLite reads a negative offset as 0.
\<close>

definition get_chat_history_handler ::
  "string option \<Rightarrow> int option \<Rightarrow> int option \<Rightarrow> nat \<Rightarrow> db \<Rightarrow> (error + message list) \<times> db" where
  "get_chat_history_handler other limit offset i s =
     (let user = users s ! i;
          lim = (case limit of None \<Rightarrow> 50 | Some n \<Rightarrow> n);
          off = (case offset of None \<Rightarrow> 0 | Some n \<Rightarrow> n)
      in if \<not> truthy_str other then (Inl UserIdRequired, s)
         else
           (Inr (limit_rows lim (drop (nat off)
                   (sort_key (\<lambda>m. - sent_at m)
                      (filter (\<lambda>m. (sender_id m = user_id user \<and> Some (receiver_id m) = other) \<or>
                                    (Some (sender_id m) = other \<and> receiver_id m = user_id user))
                         (messages s))))), s))"

definition get_chat_history ::
  "int \<Rightarrow> string option \<Rightarrow> string option \<Rightarrow> int option \<Rightarrow> int option \<Rightarrow> db
     \<Rightarrow> (error + message list) \<times> db" where
  "get_chat_history now key other limit offset s =
     with_api_key now key s (get_chat_history_handler other limit offset)"

text \<open>
  \<open>download_file\<close>. After its three checks the route adds one to \<open>read_count\<close> of
  the row found and commits (lines 699-700). Then line 703 calls \<open>send_file\<close>, which
  at that point names the route function of line 456 (it rebinds the name imported
  from flask), wrapped by \<open>require_api_key\<close>: the wrapper checks the API key of the
  same request again and commits \<open>last_activity\<close>, and calling the route function
  with an argument raises TypeError, which the \<open>except\<close> branch of
  \<open>download_file\<close> answers with 500. Should the second key check fail, its answer
  is what line 703 returns.
\<close>

definition download_file_handler ::
  "int \<Rightarrow> string option \<Rightarrow> string \<Rightarrow> nat \<Rightarrow> db \<Rightarrow> (error + string) \<times> db" where
  "download_file_handler now key fid i s =
     (let user = users s ! i in
      case find_index_of (\<lambda>m. file_id m = Some fid) (messages s) of
        None \<Rightarrow> (Inl FileNotFound, s)
      | Some j \<Rightarrow>
          (let m = messages s ! j in
           if sender_id m \<noteq> user_id user \<and> receiver_id m \<noteq> user_id user
           then (Inl AccessDenied, s)
           else if \<not> file_on_disk m s then (Inl FileNotFoundOnServer, s)
           else
             (let s1 = s\<lparr>messages := (messages s)[j := m\<lparr>read_count := read_count m + 1\<rparr>]\<rparr>
              in case require_api_key now key s1 of
                   Inl e \<Rightarrow> (Inl e, s1)
                 | Inr (k, s2) \<Rightarrow> (Inl ServerError, s2))))"

definition download_file ::
  "int \<Rightarrow> string option \<Rightarrow> string \<Rightarrow> db \<Rightarrow> (error + string) \<times> db" where
  "download_file now key fid s = with_api_key now key s (download_file_handler now key fid)"

text \<open>
  \<open>set_webhook\<close> deletes every registration of the user and adds the new one.
\<close>

definition set_webhook_handler :: "int \<Rightarrow> fields option \<Rightarrow> nat \<Rightarrow> db \<Rightarrow> (error + unit) \<times> db" where
  "set_webhook_handler now data i s =
     (let user = users s ! i in
      if no_data data \<or> \<not> truthy_str (get_field data ''url'') then (Inl WebhookUrlRequired, s)
      else
        (let webhook = \<lparr>wh_user_id = user_id user,
                        webhook_url = the (get_field data ''url''),
                        secret_token = get_field data ''secret_token'',
                        wh_is_active = True,
                        wh_created_at = now,
                        last_triggered = None\<rparr>
         in (Inr (),
             s\<lparr>webhooks := filter (\<lambda>w. wh_user_id w \<noteq> user_id user) (webhooks s) @ [webhook]\<rparr>)))"

definition set_webhook :: "int \<Rightarrow> string option \<Rightarrow> fields option \<Rightarrow> db \<Rightarrow> (error + unit) \<times> db" where
  "set_webhook now key data s = with_api_key now key s (set_webhook_handler now data)"

section \<open>The specification's notions\<close>

text \<open>
  The ledger invariant of the specification, written from its words: for every account
  the storage counter is the sum of the file sizes of the stored messages it sent, the
  message counter is their number, and neither is negative.
\<close>

definition sent_by :: "user \<Rightarrow> db \<Rightarrow> message list" where
  "sent_by u s = filter (\<lambda>m. sender_id m = user_id u) (messages s)"

definition ledger_ok :: "db \<Rightarrow> bool" where
  "ledger_ok s =
     list_all
       (\<lambda>u. storage_used u = sum_list (map (\<lambda>m. or_zero (file_size m)) (sent_by u s)) \<and>
            message_count u = int (length (sent_by u s)) \<and>
            0 \<le> storage_used u \<and> 0 \<le> message_count u)
       (users s)"

text \<open>
  The specification's file-type rule, written from its words: the name contains a dot,
  and what follows the last dot equals an extension of the allow-list when case is
  ignored.
\<close>

definition has_allowed_extension :: "string \<Rightarrow> bool" where
  "has_allowed_extension name =
     (\<exists>stem ext. name = stem @ CHR ''.'' # ext \<and> CHR ''.'' \<notin> set ext \<and>
        (\<exists>e \<in> ALLOWED_EXTENSIONS. lower ext = lower e))"

definition upper_char :: "char \<Rightarrow> char" where
  "upper_char c =
     (case map_of (zip ''abcdefghijklmnopqrstuvwxyz'' ''ABCDEFGHIJKLMNOPQRSTUVWXYZ'') c of
        None \<Rightarrow> c
      | Some d \<Rightarrow> d)"

definition upper :: "string \<Rightarrow> string" where
  "upper t = map upper_char t"

text \<open>
  A message with the fields a poll, a notification or a download may write reset, to
  compare two versions of a row on all the other fields.
\<close>

definition without_poll_marks :: "message \<Rightarrow> message" where
  "without_poll_marks m = m\<lparr>is_delivered := False, read_count := 0\<rparr>"

definition without_webhook_mark :: "message \<Rightarrow> message" where
  "without_webhook_mark m = m\<lparr>webhook_sent := False\<rparr>"

definition without_read_count :: "message \<Rightarrow> message" where
  "without_read_count m = m\<lparr>read_count := 0\<rparr>"

section \<open>Example data\<close>

definition MiB :: int where
  "MiB = 1024 * 1024"

definition example_user :: "string \<Rightarrow> int \<Rightarrow> int \<Rightarrow> user" where
  "example_user name used cnt =
     \<lparr>user_id = name, username = name, email = name @ ''@example.com'',
      api_key = ''key-'' @ name, storage_used = used, message_count = cnt,
      is_active = True, is_admin = False, created_at = 0, last_activity = 0\<rparr>"

definition example_text :: "int \<Rightarrow> string \<Rightarrow> string \<Rightarrow> string \<Rightarrow> int \<Rightarrow> message" where
  "example_text n tag from_user to_user t =
     \<lparr>update_id = n, message_id = ''m'' @ tag, message_type = ''text'',
      text_content = Some ''hello'', file_id = None, original_name = None, file_name = None,
      file_path = None, file_size = None, mime_type = None,
      reply_to_message_id = None, reply_to_sender_id = None, reply_to_text = None,
      sender_id = from_user, sender_username = from_user, receiver_id = to_user,
      sent_at = t, expires_at = t + hours MESSAGE_AUTO_DELETE_HOURS,
      is_delivered = False, read_count = 0, webhook_sent = False\<rparr>"

definition example_path :: "string \<Rightarrow> string" where
  "example_path tag = UPLOAD_FOLDER @ ''/f'' @ tag @ ''_a.pdf''"

definition example_file :: "int \<Rightarrow> string \<Rightarrow> string \<Rightarrow> string \<Rightarrow> int \<Rightarrow> int \<Rightarrow> message" where
  "example_file n tag from_user to_user nbytes t =
     \<lparr>update_id = n, message_id = ''m'' @ tag, message_type = ''file'',
      text_content = Some [], file_id = Some (''f'' @ tag), original_name = Some ''a.pdf'',
      file_name = Some (''f'' @ tag @ ''_a.pdf''), file_path = Some (example_path tag),
      file_size = Some nbytes, mime_type = Some ''application/pdf'',
      reply_to_message_id = None, reply_to_sender_id = None, reply_to_text = None,
      sender_id = from_user, sender_username = from_user, receiver_id = to_user,
      sent_at = t, expires_at = t + hours MESSAGE_AUTO_DELETE_HOURS,
      is_delivered = False, read_count = 0, webhook_sent = False\<rparr>"

text \<open>Two accounts and nothing stored; alice has used \<open>used\<close> bytes in \<open>cnt\<close> messages.\<close>

definition example_db :: "int \<Rightarrow> int \<Rightarrow> message list \<Rightarrow> db" where
  "example_db used cnt ms =
     \<lparr>users = [example_user ''alice'' used cnt, example_user ''bob'' 0 0],
      messages = ms,
      webhooks = [],
      disk = set (List.map_filter file_path ms)\<rparr>"

definition example_upload :: "string \<Rightarrow> int \<Rightarrow> upload" where
  "example_upload name nbytes =
     \<lparr>filename = name, content_length = nbytes, content_type = Some ''application/pdf''\<rparr>"

text \<open>
  The rows a poll selects: the receiver's rows above the offset, by ascending key, cut
  at the limit (lines 589-605).
\<close>

definition selected_rows :: "int option \<Rightarrow> int option \<Rightarrow> user \<Rightarrow> db \<Rightarrow> message list" where
  "selected_rows offset limit u s =
     limit_rows (case limit of None \<Rightarrow> POLLING_LIMIT | Some n \<Rightarrow> n)
       (sort_key update_id
          (filter (\<lambda>m. receiver_id m = user_id u \<and>
                        (case offset of None \<Rightarrow> True | Some off \<Rightarrow> update_id m > off))
             (messages s)))"

definition example_webhook :: "string \<Rightarrow> user_webhook" where
  "example_webhook uid =
     \<lparr>wh_user_id = uid, webhook_url = ''https://example.com/hook'', secret_token = None,
      wh_is_active = True, wh_created_at = 0, last_triggered = None\<rparr>"

text \<open>One text message from alice to bob, and bob has registered a webhook.\<close>

definition example_hook_db :: db where
  "example_hook_db =
     (example_db 0 1 [example_text 1 ''1'' ''alice'' ''bob'' 1000])\<lparr>webhooks := [example_webhook ''bob'']\<rparr>"

text \<open>
  The rows of the second store are rows of the first, unchanged and in the same order:
  all that happened to the message table is that rows were deleted.
\<close>

definition rows_only_deleted :: "db \<Rightarrow> db \<Rightarrow> bool" where
  "rows_only_deleted s s' = (\<exists>P. messages s' = filter P (messages s))"

text \<open>One stored file of 10 MiB, sent by alice to bob, for the download route.\<close>

definition example_file_db :: db where
  "example_file_db = example_db (10 * MiB) 1 [example_file 1 ''1'' ''alice'' ''bob'' (10 * MiB) 1000]"

section \<open>The stores the program produces\<close>












section \<open>Facts about the idioms\<close>

lemma find_index_of_Some:
  "find_index_of P xs = Some i \<Longrightarrow> i < length xs \<and> P (xs ! i)"
proof (induction xs arbitrary: i)
  case Nil
  then show ?case by simp
next
  case (Cons x xs)
  then show ?case by (cases "P x") auto
qed

lemma find_index_of_None: "find_index_of P xs = None \<longleftrightarrow> (\<forall>x \<in> set xs. \<not> P x)"
  by (induction xs) auto

lemma find_index_of_update:
  assumes "\<And>x. P (f x) = P x"
  shows "find_index_of P (xs[i := f (xs ! i)]) = find_index_of P xs"
proof (induction xs arbitrary: i)
  case Nil
  then show ?case by simp
next
  case (Cons x xs)
  then show ?case using assms by (cases i) auto
qed

lemma require_api_key_Inr:
  assumes "require_api_key now key s = Inr (i, s0)"
  shows "i < length (users s)"
    and "s0 = s\<lparr>users := (users s)[i := (users s ! i)\<lparr>last_activity := now\<rparr>]\<rparr>"
  using assms
  by (auto simp: require_api_key_def split: if_splits option.splits dest: find_index_of_Some)

lemma rsplit1_index:
  "CHR ''.'' \<in> set name \<Longrightarrow>
   index (rsplit1 CHR ''.'' name) 1 = Some (rev (takeWhile (\<lambda>c. c \<noteq> CHR ''.'') (rev name)))"
  by (simp add: rsplit1_def index_def)

section \<open>Polling: facts about \<open>get_updates\<close>\<close>

lemma poll_loop_rows: "poll_loop rounds rows = rows"
  by (induction rounds) auto

lemma get_updates_handler_rows:
  "get_updates_handler offset limit timeout i s =
     (let rows = selected_rows offset limit (users s ! i) s in
      (Inr (rows,
            if rows \<noteq> [] then fold (\<lambda>m acc. max acc (update_id m)) rows (or_zero offset) + 1
            else or_zero offset),
       s\<lparr>messages := map (\<lambda>m. if m \<in> set rows then mark_delivered m else m) (messages s)\<rparr>))"
  by (cases offset) (simp_all add: get_updates_handler_def selected_rows_def Let_def poll_loop_rows)

lemma get_updates_Inr:
  assumes "get_updates now key offset limit timeout s = (Inr r, s')"
  shows "\<exists>i s0. require_api_key now key s = Inr (i, s0) \<and>
                get_updates_handler offset limit timeout i s0 = (Inr r, s')"
  using assms
  by (auto simp: get_updates_def with_api_key_def split: sum.splits)

lemma set_limit_rows: "set (limit_rows n xs) \<subseteq> set xs"
  by (auto simp: limit_rows_def dest: in_set_takeD)

lemma sorted_limit_rows: "sorted (map f xs) \<Longrightarrow> sorted (map f (limit_rows n xs))"
  by (simp add: limit_rows_def sorted_wrt_take flip: take_map)

lemma selected_rows_subset:
  "m \<in> set (selected_rows offset limit u s) \<Longrightarrow>
     m \<in> set (messages s) \<and> receiver_id m = user_id u \<and>
     (case offset of None \<Rightarrow> True | Some off \<Rightarrow> update_id m > off)"
  using set_limit_rows[of _ "sort_key update_id
          (filter (\<lambda>m. receiver_id m = user_id u \<and>
                        (case offset of None \<Rightarrow> True | Some off \<Rightarrow> update_id m > off))
             (messages s))"]
  by (auto simp: selected_rows_def)

lemma sorted_selected_rows: "sorted (map update_id (selected_rows offset limit u s))"
  unfolding selected_rows_def by (rule sorted_limit_rows) simp

lemma fold_max_ge:
  "a \<le> fold (\<lambda>m acc. max acc (update_id m)) ms a"
  "m \<in> set ms \<Longrightarrow> update_id m \<le> fold (\<lambda>m acc. max acc (update_id m)) ms a"
proof (induction ms arbitrary: a)
  case Nil
  { case 1 show ?case by simp }
  { case 2 then show ?case by simp }
next
  case (Cons x xs)
  { case 1 show ?case using Cons(1)[of "max a (update_id x)"] by simp }
  { case 2 then show ?case
      using Cons(1)[of "max a (update_id x)"] Cons(2)[of "max a (update_id x)"] by auto }
qed

lemma fold_max_Max:
  assumes "ms \<noteq> []" and "\<forall>m \<in> set ms. a \<le> update_id m"
  shows "fold (\<lambda>m acc. max acc (update_id m)) ms a = Max (update_id ` set ms)"
  using assms
proof (induction ms arbitrary: a)
  case Nil
  then show ?case by simp
next
  case (Cons x xs)
  show ?case
  proof (cases "xs = []")
    case True
    with Cons.prems show ?thesis by (simp add: max_def)
  next
    case False
    have "fold (\<lambda>m acc. max acc (update_id m)) xs (update_id x) = Max (update_id ` set (x # xs))"
    proof -
      let ?F = "fold (\<lambda>m acc. max acc (update_id m)) xs (update_id x)"
      have ge: "\<forall>y \<in> set (x # xs). update_id y \<le> ?F"
        using fold_max_ge(1)[where a = "update_id x" and ms = xs]
              fold_max_ge(2)[where a = "update_id x" and ms = xs] by auto
      have "?F \<in> update_id ` set (x # xs)"
      proof -
        have "\<And>b. fold (\<lambda>m acc. max acc (update_id m)) xs b \<in> insert b (update_id ` set xs)"
          by (induction xs) (auto simp: max_def)
        then show ?thesis by (metis image_insert list.simps(15))
      qed
      then show ?thesis using ge by (intro Max_eqI[symmetric]) auto
    qed
    moreover have "max a (update_id x) = update_id x" using Cons.prems by simp
    ultimately show ?thesis by simp
  qed
qed

lemma get_updates_result:
  assumes "fst (get_updates now key offset limit timeout s) = Inr (ups, nxt)"
  shows "\<exists>u. ups = selected_rows offset limit u s \<and>
             nxt = (if ups \<noteq> [] then fold (\<lambda>m acc. max acc (update_id m)) ups (or_zero offset) + 1
                    else or_zero offset)"
proof -
  obtain s' where "get_updates now key offset limit timeout s = (Inr (ups, nxt), s')"
    using assms by (cases "get_updates now key offset limit timeout s") auto
  from get_updates_Inr[OF this] obtain i s0 where
    auth: "require_api_key now key s = Inr (i, s0)" and
    h: "get_updates_handler offset limit timeout i s0 = (Inr (ups, nxt), s')"
    by blast
  have ms: "messages s0 = messages s"
    using require_api_key_Inr(2)[OF auth] by simp
  have sel: "selected_rows offset limit (users s0 ! i) s0 = selected_rows offset limit (users s0 ! i) s"
    by (simp add: selected_rows_def ms)
  from h have "ups = selected_rows offset limit (users s0 ! i) s0"
    and "nxt = (if ups \<noteq> [] then fold (\<lambda>m acc. max acc (update_id m)) ups (or_zero offset) + 1
                else or_zero offset)"
    by (auto simp: get_updates_handler_rows Let_def)
  with sel show ?thesis by auto
qed

section \<open>Polling: the cursor\<close>

text \<open>
  Claim C4. A poll with offset \<open>N\<close> that answers returns only messages whose sequence
  number is above \<open>N\<close>. A second poll made with the \<open>next_offset\<close> of the first, in
  whatever state the store is by then, returns only messages with a larger sequence
  number than every message of the first, so none that the first returned.
\<close>

theorem C4_cursor_exclusion:
  assumes first: "fst (get_updates now key (Some N) limit timeout s) = Inr (ups, nxt)"
    and second: "fst (get_updates now2 key2 (Some nxt) limit2 timeout2 s2) = Inr (ups2, nxt2)"
  shows "(\<forall>m \<in> set ups. N < update_id m) \<and>
         (\<forall>m2 \<in> set ups2. \<forall>m \<in> set ups. update_id m < update_id m2) \<and>
         set ups \<inter> set ups2 = {}"
proof -
  from get_updates_result[OF first] obtain u where
    ups: "ups = selected_rows (Some N) limit u s" and
    nxt: "nxt = (if ups \<noteq> [] then fold (\<lambda>m acc. max acc (update_id m)) ups (or_zero (Some N)) + 1
                 else or_zero (Some N))"
    by blast
  from get_updates_result[OF second] obtain u2 where
    ups2: "ups2 = selected_rows (Some nxt) limit2 u2 s2"
    by blast
  have a: "\<forall>m \<in> set ups. N < update_id m"
    using selected_rows_subset[of _ "Some N" limit u s] ups by auto
  have b: "\<forall>m \<in> set ups. update_id m < nxt"
  proof
    fix m assume m: "m \<in> set ups"
    then have "ups \<noteq> []" by auto
    with nxt fold_max_ge(2)[OF m, of N] show "update_id m < nxt"
      by (simp add: or_zero_def)
  qed
  have c: "\<forall>m2 \<in> set ups2. nxt < update_id m2"
    using selected_rows_subset[of _ "Some nxt" limit2 u2 s2] ups2 by auto
  from b c have d: "\<forall>m2 \<in> set ups2. \<forall>m \<in> set ups. update_id m < update_id m2"
    by fastforce
  then have "set ups \<inter> set ups2 = {}" by fastforce
  with a d show ?thesis by blast
qed

text \<open>
  Three messages for bob, polled from offset 1: the answer is messages 2 and 3 and
  \<open>next_offset\<close> 4. Polled again from 4 when six messages are stored, the answer is
  messages 5 and 6.
\<close>

theorem C4_cursor_exclusion_witness:
  "1 < update_id (example_text 2 ''2'' ''alice'' ''bob'' 1002) \<and>
   1 < update_id (example_text 3 ''3'' ''alice'' ''bob'' 1003) \<and>
   update_id (example_text 3 ''3'' ''alice'' ''bob'' 1003) < update_id (example_text 5 ''5'' ''alice'' ''bob'' 1005) \<and>
   set [example_text 2 ''2'' ''alice'' ''bob'' 1002, example_text 3 ''3'' ''alice'' ''bob'' 1003] \<inter>
   set [example_text 5 ''5'' ''alice'' ''bob'' 1005, example_text 6 ''6'' ''alice'' ''bob'' 1006] = {}"
proof -
  have first: "fst (get_updates 5000 (Some ''key-bob'') (Some 1) None None
              (example_db 0 3 [example_text 1 ''1'' ''alice'' ''bob'' 1001,
                               example_text 2 ''2'' ''alice'' ''bob'' 1002,
                               example_text 3 ''3'' ''alice'' ''bob'' 1003]))
     = Inr ([example_text 2 ''2'' ''alice'' ''bob'' 1002, example_text 3 ''3'' ''alice'' ''bob'' 1003], 4)"
    by code_simp
  have second: "fst (get_updates 6000 (Some ''key-bob'') (Some 4) (Some 10) (Some 2)
              (example_db 0 6 [example_text 1 ''1'' ''alice'' ''bob'' 1001,
                               example_text 2 ''2'' ''alice'' ''bob'' 1002,
                               example_text 3 ''3'' ''alice'' ''bob'' 1003,
                               example_text 4 ''4'' ''alice'' ''bob'' 1004,
                               example_text 5 ''5'' ''alice'' ''bob'' 1005,
                               example_text 6 ''6'' ''alice'' ''bob'' 1006]))
     = Inr ([example_text 5 ''5'' ''alice'' ''bob'' 1005, example_text 6 ''6'' ''alice'' ''bob'' 1006], 7)"
    by code_simp
  from C4_cursor_exclusion[OF first second] show ?thesis by simp
qed

text \<open>
  Claim C5. A poll that answers returns its messages by ascending sequence number;
  \<open>next_offset\<close> is the largest sequence number returned plus one, and when nothing
  is returned it is the offset given, or 0 when none was given. For a poll without an
  offset the store's sequence numbers are taken to be positive, as the keys the
  database assigns are (\<open>next_update_id_fresh\<close>).
\<close>

theorem C5_next_offset:
  assumes pos: "offset = None \<longrightarrow> (\<forall>m \<in> set (messages s). 0 < update_id m)"
    and res: "fst (get_updates now key offset limit timeout s) = Inr (ups, nxt)"
  shows "sorted (map update_id ups) \<and>
         (ups \<noteq> [] \<longrightarrow> nxt = Max (update_id ` set ups) + 1) \<and>
         (ups = [] \<longrightarrow> nxt = (case offset of None \<Rightarrow> 0 | Some N \<Rightarrow> N))"
proof -
  from get_updates_result[OF res] obtain u where
    ups: "ups = selected_rows offset limit u s" and
    nxt: "nxt = (if ups \<noteq> [] then fold (\<lambda>m acc. max acc (update_id m)) ups (or_zero offset) + 1
                 else or_zero offset)"
    by blast
  have srt: "sorted (map update_id ups)"
    unfolding ups by (rule sorted_selected_rows)
  have above: "\<forall>m \<in> set ups. or_zero offset \<le> update_id m"
  proof
    fix m assume "m \<in> set ups"
    from selected_rows_subset[OF this[unfolded ups]] pos
    show "or_zero offset \<le> update_id m"
      by (cases offset) (auto simp: or_zero_def dest: order.strict_implies_order)
  qed
  have "ups \<noteq> [] \<Longrightarrow> nxt = Max (update_id ` set ups) + 1"
    using nxt fold_max_Max[OF _ above] by simp
  moreover have "ups = [] \<Longrightarrow> nxt = (case offset of None \<Rightarrow> 0 | Some N \<Rightarrow> N)"
    using nxt by (simp add: or_zero_def)
  ultimately show ?thesis using srt by blast
qed

text \<open>
  From offset 1 the answer is messages 2 and 3 and \<open>next_offset\<close> 4; from offset 7
  nothing is returned and \<open>next_offset\<close> stays 7; without an offset the answer is
  all three messages and \<open>next_offset\<close> 4, and on an empty store it is 0.
\<close>

theorem C5_next_offset_witness:
  "sorted (map update_id [example_text 2 ''2'' ''alice'' ''bob'' 1002, example_text 3 ''3'' ''alice'' ''bob'' 1003]) \<and>
   (4 :: int) = Max (update_id ` set [example_text 2 ''2'' ''alice'' ''bob'' 1002,
                                      example_text 3 ''3'' ''alice'' ''bob'' 1003]) + 1 \<and>
   fst (get_updates 5000 (Some ''key-bob'') (Some 7) None None
          (example_db 0 3 [example_text 1 ''1'' ''alice'' ''bob'' 1001,
                           example_text 2 ''2'' ''alice'' ''bob'' 1002,
                           example_text 3 ''3'' ''alice'' ''bob'' 1003])) = Inr ([], 7) \<and>
   snd (projr (fst (get_updates 5000 (Some ''key-bob'') None None None
          (example_db 0 3 [example_text 1 ''1'' ''alice'' ''bob'' 1001,
                           example_text 2 ''2'' ''alice'' ''bob'' 1002,
                           example_text 3 ''3'' ''alice'' ''bob'' 1003])))) =
     Max (update_id ` set [example_text 1 ''1'' ''alice'' ''bob'' 1001,
                           example_text 2 ''2'' ''alice'' ''bob'' 1002,
                           example_text 3 ''3'' ''alice'' ''bob'' 1003]) + 1 \<and>
   fst (get_updates 5000 (Some ''key-bob'') None None None (example_db 0 0 [])) = Inr ([], 0)"
proof -
  let ?db = "example_db 0 3 [example_text 1 ''1'' ''alice'' ''bob'' 1001,
                             example_text 2 ''2'' ''alice'' ''bob'' 1002,
                             example_text 3 ''3'' ''alice'' ''bob'' 1003]"
  have some: "\<And>N s. Some (N :: int) = None \<longrightarrow> (\<forall>m \<in> set (messages s). 0 < update_id m)"
    by simp
  have pos: "None = (None :: int option) \<longrightarrow> (\<forall>m \<in> set (messages ?db). 0 < update_id m)"
    by (simp add: example_db_def example_text_def)
  have pos': "None = (None :: int option) \<longrightarrow> (\<forall>m \<in> set (messages (example_db 0 0 [])). 0 < update_id m)"
    by (simp add: example_db_def)
  have a: "fst (get_updates 5000 (Some ''key-bob'') (Some 1) None None ?db)
     = Inr ([example_text 2 ''2'' ''alice'' ''bob'' 1002, example_text 3 ''3'' ''alice'' ''bob'' 1003], 4)"
    by code_simp
  have b: "fst (get_updates 5000 (Some ''key-bob'') (Some 7) None None ?db)
     = Inr ([], snd (projr (fst (get_updates 5000 (Some ''key-bob'') (Some 7) None None ?db))))"
    by code_simp
  have c: "fst (get_updates 5000 (Some ''key-bob'') None None None (example_db 0 0 []))
     = Inr ([], snd (projr (fst (get_updates 5000 (Some ''key-bob'') None None None (example_db 0 0 [])))))"
    by code_simp
  have d: "fst (get_updates 5000 (Some ''key-bob'') None None None ?db)
     = Inr ([example_text 1 ''1'' ''alice'' ''bob'' 1001,
             example_text 2 ''2'' ''alice'' ''bob'' 1002,
             example_text 3 ''3'' ''alice'' ''bob'' 1003],
            snd (projr (fst (get_updates 5000 (Some ''key-bob'') None None None ?db))))"
    by code_simp
  from C5_next_offset[OF some a] C5_next_offset[OF some b] C5_next_offset[OF pos' c]
       C5_next_offset[OF pos d] b c
  show ?thesis by simp
qed

text \<open>
  Claim C10. In a store whose sequence numbers are positive (they start at 1), a poll
  with offset 0 gives the same answer, and leaves the same database, as the poll with
  the offset left out.
\<close>

theorem C10_offset_zero_is_omitted:
  assumes pos: "\<forall>m \<in> set (messages s). 0 < update_id m"
  shows "get_updates now key (Some 0) limit timeout s = get_updates now key None limit timeout s"
proof (cases "require_api_key now key s")
  case (Inl e)
  then show ?thesis by (simp add: get_updates_def with_api_key_def)
next
  case (Inr r)
  obtain i s0 where r: "r = (i, s0)" by (cases r)
  have ms: "messages s0 = messages s"
    using require_api_key_Inr(2)[OF Inr[unfolded r]] by simp
  have "filter (\<lambda>m. receiver_id m = user_id (users s0 ! i) \<and> 0 < update_id m) (messages s0)
        = filter (\<lambda>m. receiver_id m = user_id (users s0 ! i)) (messages s0)"
    using pos unfolding ms by (intro filter_cong) auto
  then have "get_updates_handler (Some 0) limit timeout i s0 = get_updates_handler None limit timeout i s0"
    by (simp add: get_updates_handler_def or_zero_def Let_def)
  then show ?thesis by (simp add: get_updates_def with_api_key_def Inr r)
qed

text \<open>Bob's two messages, 1 and 3, come back either way.\<close>

theorem C10_offset_zero_is_omitted_witness:
  "get_updates 5000 (Some ''key-bob'') (Some 0) None None
     (example_db 0 3 [example_text 1 ''1'' ''alice'' ''bob'' 1001,
                      example_text 2 ''2'' ''bob'' ''alice'' 1002,
                      example_text 3 ''3'' ''alice'' ''bob'' 1003]) =
   get_updates 5000 (Some ''key-bob'') None None None
     (example_db 0 3 [example_text 1 ''1'' ''alice'' ''bob'' 1001,
                      example_text 2 ''2'' ''bob'' ''alice'' 1002,
                      example_text 3 ''3'' ''alice'' ''bob'' 1003]) \<and>
   map update_id (fst (projr (fst (get_updates 5000 (Some ''key-bob'') None None None
     (example_db 0 3 [example_text 1 ''1'' ''alice'' ''bob'' 1001,
                      example_text 2 ''2'' ''bob'' ''alice'' 1002,
                      example_text 3 ''3'' ''alice'' ''bob'' 1003]))))) = [1, 3]"
proof -
  let ?db = "example_db 0 3 [example_text 1 ''1'' ''alice'' ''bob'' 1001,
                             example_text 2 ''2'' ''bob'' ''alice'' 1002,
                             example_text 3 ''3'' ''alice'' ''bob'' 1003]"
  have pos: "\<forall>m \<in> set (messages ?db). 0 < update_id m"
    by (simp add: example_db_def example_text_def)
  have "map update_id (fst (projr (fst (get_updates 5000 (Some ''key-bob'') None None None ?db)))) = [1, 3]"
    by code_simp
  with C10_offset_zero_is_omitted[OF pos, of 5000 "Some ''key-bob''" None None]
  show ?thesis by simp
qed

section \<open>Retention and the ledger\<close>

text \<open>
  Claim C1 says that in every reachable state each account's counters equal the sum of
  sizes and the number of the stored messages it sent (\<open>ledger_ok\<close>). The code does
  not keep this: \<open>cleanup_old_messages\<close> lowers \<open>message_count\<close> only inside
  \<open>if message.file_size\<close>, so the expiry of a text message deletes the row and leaves
  the counter. Here alice sends one text message to bob at time 1000; the ledger is right
  before and after the send; the sweep at time 90000, more than 24 hours later, deletes
  the message and alice's counter is still 1.
\<close>

theorem C1_ledger_broken_by_text_expiry:
  "ledger_ok (example_db 0 0 []) \<and>
   ledger_ok (snd (send_message 1000 (Some ''key-alice'') ''m1''
                     (Some [(''receiver_id'', ''bob''), (''text'', ''hello'')]) (example_db 0 0 []))) \<and>
   messages (cleanup_old_messages 90000
               (snd (send_message 1000 (Some ''key-alice'') ''m1''
                       (Some [(''receiver_id'', ''bob''), (''text'', ''hello'')]) (example_db 0 0 [])))) = [] \<and>
   map message_count
     (users (cleanup_old_messages 90000
               (snd (send_message 1000 (Some ''key-alice'') ''m1''
                       (Some [(''receiver_id'', ''bob''), (''text'', ''hello'')]) (example_db 0 0 []))))) = [1, 0] \<and>
   \<not> ledger_ok (cleanup_old_messages 90000
                  (snd (send_message 1000 (Some ''key-alice'') ''m1''
                          (Some [(''receiver_id'', ''bob''), (''text'', ''hello'')]) (example_db 0 0 []))))"
  by code_simp

text \<open>
  Claim C3 says that the expiry sweep lowers the sender's message counter by one for
  each deleted message. For a message without a file it does not (the same guard
  \<open>if message.file_size\<close> as for claim C1): the expired text message is deleted and
  the sender's counter stays at 1.
\<close>

theorem C3_text_expiry_keeps_count:
  "messages (cleanup_old_messages 90000
      (example_db 0 1 [example_text 1 ''1'' ''alice'' ''bob'' 1000])) = [] \<and>
   map message_count (users (example_db 0 1 [example_text 1 ''1'' ''alice'' ''bob'' 1000])) = [1, 0] \<and>
   map message_count (users (cleanup_old_messages 90000
      (example_db 0 1 [example_text 1 ''1'' ''alice'' ''bob'' 1000]))) = [1, 0]"
  by code_simp

section \<open>What the operations do to stored messages\<close>

lemma rows_only_deleted_refl: "rows_only_deleted s s"
  unfolding rows_only_deleted_def by (rule exI[of _ "\<lambda>_. True"]) simp

lemma rows_only_deleted_trans:
  assumes "rows_only_deleted s t" and "rows_only_deleted t u"
  shows "rows_only_deleted s u"
proof -
  from assms obtain P Q where "messages t = filter P (messages s)" "messages u = filter Q (messages t)"
    unfolding rows_only_deleted_def by blast
  then have "messages u = filter (\<lambda>x. P x \<and> Q x) (messages s)" by simp
  then show ?thesis unfolding rows_only_deleted_def by blast
qed

lemma rows_only_deleted_same: "messages t = messages s \<Longrightarrow> rows_only_deleted s t"
  unfolding rows_only_deleted_def by (rule exI[of _ "\<lambda>_. True"]) simp

lemma rows_only_deleted_delete:
  assumes "messages t = messages s"
  shows "rows_only_deleted s (delete_message m t)"
  unfolding rows_only_deleted_def delete_message_def using assms by auto

lemma messages_remove_file: "messages (remove_file m s) = messages s"
  by (simp add: remove_file_def split: option.splits)

lemma cleanup_message_rows: "rows_only_deleted s (cleanup_message m s)"
  unfolding cleanup_message_def Let_def
  by (rule rows_only_deleted_delete) (simp add: messages_remove_file)

lemma fold_rows_only_deleted:
  assumes "\<And>x t. rows_only_deleted t (f x t)"
  shows "rows_only_deleted s (fold f xs s)"
proof (induction xs arbitrary: s)
  case Nil
  show ?case by (simp add: rows_only_deleted_refl)
next
  case (Cons x xs)
  have a: "rows_only_deleted s (f x s)" by (rule assms)
  have b: "rows_only_deleted (f x s) (fold f xs (f x s))" by (rule Cons.IH)
  from rows_only_deleted_trans[OF a b] show ?case by simp
qed

lemma cleanup_old_messages_rows: "rows_only_deleted s (cleanup_old_messages now s)"
  unfolding cleanup_old_messages_def Let_def
  by (rule fold_rows_only_deleted) (rule cleanup_message_rows)

lemma global_loop_rows: "rows_only_deleted s (global_loop tot ms d s)"
proof (induction ms arbitrary: d s)
  case Nil
  show ?case by (simp add: rows_only_deleted_refl)
next
  case (Cons m ms)
  show ?case
  proof (cases "tot - d \<le> MAX_TOTAL_STORAGE")
    case True
    then show ?thesis by (simp add: rows_only_deleted_refl)
  next
    case False
    let ?s1 = "if file_on_disk m s then remove_file m s else s"
    let ?s2 = "?s1\<lparr>users :=
                    upd_first (\<lambda>u. user_id u = sender_id m)
                      (\<lambda>u. u\<lparr>storage_used := max 0 (storage_used u - or_zero (file_size m)),
                             message_count := max 0 (message_count u - 1)\<rparr>)
                      (users ?s1)\<rparr>"
    have a: "rows_only_deleted s (delete_message m ?s2)"
      by (rule rows_only_deleted_delete) (simp add: messages_remove_file)
    have b: "rows_only_deleted (delete_message m ?s2)
        (global_loop tot ms (if file_on_disk m s then d + or_zero (file_size m) else d) (delete_message m ?s2))"
      by (rule Cons.IH)
    have step: "global_loop tot (m # ms) d s =
        global_loop tot ms (if file_on_disk m s then d + or_zero (file_size m) else d) (delete_message m ?s2)"
      using False by (simp add: Let_def)
    show ?thesis unfolding step by (rule rows_only_deleted_trans[OF a b])
  qed
qed

lemma user_loop_rows: "rows_only_deleted s (user_loop i ms d s)"
proof (induction ms arbitrary: d s)
  case Nil
  show ?case by (simp add: rows_only_deleted_refl)
next
  case (Cons m ms)
  show ?case
  proof (cases "storage_used (users s ! i) - d \<le> MAX_USER_STORAGE")
    case True
    then show ?thesis by (simp add: rows_only_deleted_refl)
  next
    case False
    let ?s1 = "if file_on_disk m s then remove_file m s else s"
    let ?s2 = "?s1\<lparr>users :=
                    (users ?s1)[i := (users ?s1 ! i)\<lparr>storage_used := storage_used (users ?s1 ! i) - or_zero (file_size m),
                                      message_count := message_count (users ?s1 ! i) - 1\<rparr>]\<rparr>"
    have a: "rows_only_deleted s (delete_message m ?s2)"
      by (rule rows_only_deleted_delete) (simp add: messages_remove_file)
    have b: "rows_only_deleted (delete_message m ?s2)
        (user_loop i ms (if file_on_disk m s then d + or_zero (file_size m) else d) (delete_message m ?s2))"
      by (rule Cons.IH)
    have step: "user_loop i (m # ms) d s =
        user_loop i ms (if file_on_disk m s then d + or_zero (file_size m) else d) (delete_message m ?s2)"
      using False by (simp add: Let_def)
    show ?thesis unfolding step by (rule rows_only_deleted_trans[OF a b])
  qed
qed

lemma enforce_user_rows: "rows_only_deleted s (enforce_user i s)"
  by (simp add: enforce_user_def Let_def user_loop_rows rows_only_deleted_refl)

lemma enforce_storage_limits_rows: "rows_only_deleted s (enforce_storage_limits s)"
proof -
  let ?s1 = "if get_total_storage_used s > MAX_TOTAL_STORAGE
             then global_loop (get_total_storage_used s)
                    (sort_key sent_at (filter (\<lambda>m. file_size m \<noteq> None) (messages s))) 0 s
             else s"
  have a: "rows_only_deleted s ?s1"
    by (simp add: global_loop_rows rows_only_deleted_refl)
  have b: "rows_only_deleted ?s1 (fold enforce_user [0 ..< length (users ?s1)] ?s1)"
    by (rule fold_rows_only_deleted) (rule enforce_user_rows)
  from rows_only_deleted_trans[OF a b] show ?thesis
    by (simp add: enforce_storage_limits_def Let_def)
qed

section \<open>Sequence numbers\<close>

text \<open>The key a new row gets is positive and above every key in the table.\<close>

lemma fold_max_bounds:
  "(a :: int) \<le> fold max xs a" "x \<in> set xs \<Longrightarrow> x \<le> fold max xs a"
proof (induction xs arbitrary: a)
  case Nil
  { case 1 show ?case by simp }
  { case 2 then show ?case by simp }
next
  case (Cons y ys)
  { case 1 show ?case using Cons(1)[of "max y a"] by simp }
  { case 2 then show ?case
      using Cons(1)[of "max y a"] Cons(2)[of "max y a"] by auto }
qed

lemma next_update_id_fresh:
  "0 < next_update_id ms" "m \<in> set ms \<Longrightarrow> update_id m < next_update_id ms"
  using fold_max_bounds(1)[of 0 "map update_id ms"]
        fold_max_bounds(2)[of "update_id m" "map update_id ms" 0]
  by (auto simp: next_update_id_def)

section \<open>The expiry sweep\<close>

text \<open>
  After the sweep every stored message was stored before and was sent within the last
  24 hours: no expired message remains.
\<close>

lemma cleanup_message_messages:
  "messages (cleanup_message m s) = filter (\<lambda>x. update_id x \<noteq> update_id m) (messages s)"
  by (simp add: cleanup_message_def Let_def delete_message_def messages_remove_file)

lemma fold_cleanup_message_messages:
  "messages (fold cleanup_message ms s) =
     filter (\<lambda>x. update_id x \<notin> update_id ` set ms) (messages s)"
proof (induction ms arbitrary: s)
  case Nil
  show ?case by simp
next
  case (Cons m ms)
  show ?case
    by (simp add: Cons.IH cleanup_message_messages)
qed

lemma cleanup_old_messages_removes_expired:
  assumes "m \<in> set (messages (cleanup_old_messages now s))"
  shows "m \<in> set (messages s)" and "\<not> sent_at m < now - hours MESSAGE_AUTO_DELETE_HOURS"
  using assms
  by (auto simp: cleanup_old_messages_def Let_def fold_cleanup_message_messages)

section \<open>The per-user cap\<close>

text \<open>
  \<open>send_file\<close> is the only place that raises \<open>storage_used\<close>, and it writes the sum
  that line 493 has just compared with the cap; every other write lowers the counter.
  So no request and no round of the background task takes an account over the cap.
\<close>

lemma cap_not_negative: "0 \<le> MAX_USER_STORAGE"
  by (simp add: MAX_USER_STORAGE_def)



























lemma lowered_within_cap:
  "storage_used u \<le> MAX_USER_STORAGE \<Longrightarrow> 0 \<le> n \<Longrightarrow>
   storage_used (u\<lparr>storage_used := max 0 (storage_used u - n),
                   message_count := max 0 (message_count u - 1)\<rparr>) \<le> MAX_USER_STORAGE"
  using cap_not_negative by simp


















text \<open>
  With every account within the cap the second part of \<open>enforce_storage_limits\<close>
  deletes nothing (\<open>per_user_phase_idle\<close>). Its loop is not exercised by any store the
  program produces. On a store written by hand, with an account at 150 MiB in five
  files of 30 MiB that are on disk, the loop lowers \<open>user.storage_used\<close> and also
  raises \<open>deleted_size\<close> and tests their difference, so it stops after one deletion,
  at 120 MiB.
\<close>

lemma user_loop_stops_early_example:
  "ledger_ok (example_db (150 * MiB) 5
      [example_file 1 ''1'' ''alice'' ''bob'' (30 * MiB) 1001,
       example_file 2 ''2'' ''alice'' ''bob'' (30 * MiB) 1002,
       example_file 3 ''3'' ''alice'' ''bob'' (30 * MiB) 1003,
       example_file 4 ''4'' ''alice'' ''bob'' (30 * MiB) 1004,
       example_file 5 ''5'' ''alice'' ''bob'' (30 * MiB) 1005]) \<and>
   map update_id (messages (background_cleanup_round 2000 (example_db (150 * MiB) 5
      [example_file 1 ''1'' ''alice'' ''bob'' (30 * MiB) 1001,
       example_file 2 ''2'' ''alice'' ''bob'' (30 * MiB) 1002,
       example_file 3 ''3'' ''alice'' ''bob'' (30 * MiB) 1003,
       example_file 4 ''4'' ''alice'' ''bob'' (30 * MiB) 1004,
       example_file 5 ''5'' ''alice'' ''bob'' (30 * MiB) 1005]))) = [2, 3, 4, 5] \<and>
   map storage_used (users (background_cleanup_round 2000 (example_db (150 * MiB) 5
      [example_file 1 ''1'' ''alice'' ''bob'' (30 * MiB) 1001,
       example_file 2 ''2'' ''alice'' ''bob'' (30 * MiB) 1002,
       example_file 3 ''3'' ''alice'' ''bob'' (30 * MiB) 1003,
       example_file 4 ''4'' ''alice'' ''bob'' (30 * MiB) 1004,
       example_file 5 ''5'' ''alice'' ''bob'' (30 * MiB) 1005]))) = [120 * MiB, 0] \<and>
   MAX_USER_STORAGE < 120 * MiB"
  by code_simp

section \<open>Sending a file: the quota check\<close>

text \<open>
  What \<open>send_file\<close> answers and stores once the request has passed the API key check,
  the body limit, the file and receiver-id checks, the 30 MiB check and, further down,
  the receiver lookup.
\<close>

lemma send_file_after_checks:
  assumes auth: "require_api_key now key s = Inr (i, s0)"
    and body: "body_length \<le> MAX_CONTENT_LENGTH"
    and fl: "upl = Some f" "filename f \<noteq> []"
    and rid: "truthy_str (map_of form ''receiver_id'')"
    and sz: "content_length f \<le> MAX_FILE_SIZE"
    and recv: "find_index_of (\<lambda>u. Some (user_id u) = map_of form ''receiver_id'' \<and> is_active u) (users s) \<noteq> None"
  shows "send_file now key ft mt sec body_length upl form s =
     (if storage_used (users s ! i) + content_length f > MAX_USER_STORAGE
      then (Inl StorageLimitExceeded, s0)
      else if allowed_file (filename f)
      then (let (reply_sender, reply_text) = reply_fields (map_of form ''reply_to_message_id'') s0;
                m = \<lparr>update_id = next_update_id (messages s),
                     message_id = mt,
                     message_type = ''file'',
                     text_content = Some (case map_of form ''caption'' of None \<Rightarrow> [] | Some c \<Rightarrow> c),
                     file_id = Some ft,
                     original_name = Some (sec (filename f)),
                     file_name = Some (ft @ ''_'' @ sec (filename f)),
                     file_path = Some (UPLOAD_FOLDER @ ''/'' @ ft @ ''_'' @ sec (filename f)),
                     file_size = Some (content_length f),
                     mime_type = content_type f,
                     reply_to_message_id = map_of form ''reply_to_message_id'',
                     reply_to_sender_id = reply_sender,
                     reply_to_text = reply_text,
                     sender_id = user_id (users s ! i),
                     sender_username = username (users s ! i),
                     receiver_id = the (map_of form ''receiver_id''),
                     sent_at = now,
                     expires_at = now + hours MESSAGE_AUTO_DELETE_HOURS,
                     is_delivered = False, read_count = 0, webhook_sent = False\<rparr>
            in (Inr m,
                s0\<lparr>messages := messages s @ [m],
                   users := (users s0)[i := (users s0 ! i)\<lparr>storage_used := storage_used (users s ! i) + content_length f,
                                                         message_count := message_count (users s ! i) + 1\<rparr>],
                   disk := insert (UPLOAD_FOLDER @ ''/'' @ ft @ ''_'' @ sec (filename f)) (disk s)\<rparr>))
      else (Inl FileTypeNotAllowed, s0))"
proof -
  note a = require_api_key_Inr[OF auth]
  have u: "storage_used (users s0 ! i) = storage_used (users s ! i)"
          "message_count (users s0 ! i) = message_count (users s ! i)"
          "user_id (users s0 ! i) = user_id (users s ! i)"
          "username (users s0 ! i) = username (users s ! i)"
          "messages s0 = messages s" "disk s0 = disk s"
    using a by simp_all
  have "find_index_of (\<lambda>u. Some (user_id u) = map_of form ''receiver_id'' \<and> is_active u) (users s0)
        = find_index_of (\<lambda>u. Some (user_id u) = map_of form ''receiver_id'' \<and> is_active u) (users s)"
    unfolding a(2) by (simp add: find_index_of_update)
  with recv obtain r where recv0:
    "find_index_of (\<lambda>u. Some (user_id u) = map_of form ''receiver_id'' \<and> is_active u) (users s0) = Some r"
    by auto
  have eq: "send_file now key ft mt sec body_length upl form s
              = send_file_handler now ft mt sec body_length upl form i s0"
    by (simp add: send_file_def with_api_key_def auth)
  show ?thesis
    unfolding eq using fl sz rid recv0 body u
    by (simp add: send_file_handler_def Let_def split: prod.splits)
qed






section \<open>The webhook notifier\<close>

lemma upd_first_find_index_of:
  "upd_first P f xs =
     (case find_index_of P xs of None \<Rightarrow> xs | Some j \<Rightarrow> xs[j := f (xs ! j)])"
  by (induction xs) (auto split: option.splits)

text \<open>
  Claim C8 as stated ties the two marks to the success of the outbound call and has a
  failed answer swallowed. In \<open>send_webhook_notification\<close> the two assignments follow
  the call whenever it returns a response (lines 208-214); only the value returned
  depends on the status. Bob has a registration and the endpoint answers 500: the
  function returns \<open>False\<close>, and the registration carries the time of the call and
  the message is marked.
\<close>

theorem C8_marked_after_failed_answer_counterexample:
  "last_triggered (webhooks example_hook_db ! 0) = None \<and>
   \<not> webhook_sent (messages example_hook_db ! 0) \<and>
   \<not> fst (send_webhook_notification ''bob'' ''m1'' 7000 (Response 500) example_hook_db) \<and>
   last_triggered (webhooks (snd (send_webhook_notification ''bob'' ''m1'' 7000 (Response 500) example_hook_db)) ! 0)
     = Some 7000 \<and>
   webhook_sent (messages (snd (send_webhook_notification ''bob'' ''m1'' 7000 (Response 500) example_hook_db)) ! 0)"
  by code_simp

text \<open>
  Claim C8, amended. When the receiver has no active registration,
  \<open>send_webhook_notification\<close> returns \<open>False\<close> and changes nothing. When there is
  one and the outbound call returns a response, whatever its status, the registration's
  \<open>last_triggered\<close> is set to the time of the call and the message with the notified
  \<open>message_id\<close>, when stored, gets \<open>webhook_sent\<close>, nothing else changes, and the
  function returns whether the status was 200. A failure of the transport returns
  \<open>False\<close> and changes nothing. Nothing is raised in any case.
\<close>

theorem C8_webhook_marking:
  "(find_index_of (\<lambda>w. wh_user_id w = uid \<and> wh_is_active w) (webhooks s) = None \<longrightarrow>
      send_webhook_notification uid mid now outcome s = (False, s)) \<and>
   (find_index_of (\<lambda>w. wh_user_id w = uid \<and> wh_is_active w) (webhooks s) = Some i \<longrightarrow>
      send_webhook_notification uid mid now (Response code) s =
        (code = 200,
         s\<lparr>webhooks := (webhooks s)[i := (webhooks s ! i)\<lparr>last_triggered := Some now\<rparr>],
           messages :=
             (case find_index_of (\<lambda>m. message_id m = mid) (messages s) of
                None \<Rightarrow> messages s
              | Some j \<Rightarrow> (messages s)[j := (messages s ! j)\<lparr>webhook_sent := True\<rparr>])\<rparr>)) \<and>
   (find_index_of (\<lambda>w. wh_user_id w = uid \<and> wh_is_active w) (webhooks s) = Some i \<and>
    find_index_of (\<lambda>m. message_id m = mid) (messages s) = Some j \<longrightarrow>
      last_triggered (webhooks (snd (send_webhook_notification uid mid now (Response code) s)) ! i) = Some now \<and>
      webhook_sent (messages (snd (send_webhook_notification uid mid now (Response code) s)) ! j)) \<and>
   send_webhook_notification uid mid now TransportFailure s = (False, s)"
proof -
  have a: "find_index_of (\<lambda>w. wh_user_id w = uid \<and> wh_is_active w) (webhooks s) = None \<Longrightarrow>
           send_webhook_notification uid mid now outcome s = (False, s)"
    by (simp add: send_webhook_notification_def)
  have b: "find_index_of (\<lambda>w. wh_user_id w = uid \<and> wh_is_active w) (webhooks s) = Some i \<Longrightarrow>
      send_webhook_notification uid mid now (Response code) s =
        (code = 200,
         s\<lparr>webhooks := (webhooks s)[i := (webhooks s ! i)\<lparr>last_triggered := Some now\<rparr>],
           messages :=
             (case find_index_of (\<lambda>m. message_id m = mid) (messages s) of
                None \<Rightarrow> messages s
              | Some j \<Rightarrow> (messages s)[j := (messages s ! j)\<lparr>webhook_sent := True\<rparr>])\<rparr>)"
    by (simp add: send_webhook_notification_def Let_def upd_first_find_index_of split: option.splits)
  have c: "find_index_of (\<lambda>w. wh_user_id w = uid \<and> wh_is_active w) (webhooks s) = Some i \<Longrightarrow>
    find_index_of (\<lambda>m. message_id m = mid) (messages s) = Some j \<Longrightarrow>
      last_triggered (webhooks (snd (send_webhook_notification uid mid now (Response code) s)) ! i) = Some now \<and>
      webhook_sent (messages (snd (send_webhook_notification uid mid now (Response code) s)) ! j)"
    using find_index_of_Some[of "\<lambda>w. wh_user_id w = uid \<and> wh_is_active w" "webhooks s" i]
          find_index_of_Some[of "\<lambda>m. message_id m = mid" "messages s" j]
    by (simp add: b)
  have d: "send_webhook_notification uid mid now TransportFailure s = (False, s)"
    by (simp add: send_webhook_notification_def split: option.splits)
  from a b c d show ?thesis by blast
qed

text \<open>
  Alice has no registration: nothing happens. Bob has one: after an answer with status
  200 the function returns \<open>True\<close>, the registration carries the time 7000 and the
  message is marked; an answer with status 404 leaves the same database and returns
  \<open>False\<close>.
\<close>

theorem C8_webhook_marking_witness:
  "send_webhook_notification ''alice'' ''m1'' 7000 (Response 200) example_hook_db = (False, example_hook_db) \<and>
   fst (send_webhook_notification ''bob'' ''m1'' 7000 (Response 200) example_hook_db) \<and>
   last_triggered (webhooks (snd (send_webhook_notification ''bob'' ''m1'' 7000 (Response 200) example_hook_db)) ! 0)
     = Some 7000 \<and>
   webhook_sent (messages (snd (send_webhook_notification ''bob'' ''m1'' 7000 (Response 200) example_hook_db)) ! 0) \<and>
   \<not> webhook_sent (messages example_hook_db ! 0) \<and>
   snd (send_webhook_notification ''bob'' ''m1'' 7000 (Response 404) example_hook_db) =
   snd (send_webhook_notification ''bob'' ''m1'' 7000 (Response 200) example_hook_db) \<and>
   \<not> fst (send_webhook_notification ''bob'' ''m1'' 7000 (Response 404) example_hook_db)"
proof -
  have none: "find_index_of (\<lambda>w. wh_user_id w = ''alice'' \<and> wh_is_active w) (webhooks example_hook_db) = None"
    by (simp add: example_hook_db_def example_webhook_def)
  have reg: "find_index_of (\<lambda>w. wh_user_id w = ''bob'' \<and> wh_is_active w) (webhooks example_hook_db) = Some 0"
    by (simp add: example_hook_db_def example_webhook_def)
  have msg: "find_index_of (\<lambda>m. message_id m = ''m1'') (messages example_hook_db) = Some 0"
    by (simp add: example_hook_db_def example_db_def example_text_def)
  have before: "\<not> webhook_sent (messages example_hook_db ! 0)"
    by (simp add: example_hook_db_def example_db_def example_text_def)
  note A = C8_webhook_marking[where uid = "''alice''" and s = example_hook_db and mid = "''m1''"
         and now = 7000 and outcome = "Response 200" and code = 200 and i = 0 and j = 0]
  note B = C8_webhook_marking[where uid = "''bob''" and s = example_hook_db and mid = "''m1''"
         and now = 7000 and outcome = "Response 200" and code = 200 and i = 0 and j = 0]
  note C = C8_webhook_marking[where uid = "''bob''" and s = example_hook_db and mid = "''m1''"
         and now = 7000 and outcome = "Response 200" and code = 404 and i = 0 and j = 0]
  have c1: "send_webhook_notification ''alice'' ''m1'' 7000 (Response 200) example_hook_db
              = (False, example_hook_db)"
    using A[THEN conjunct1] none by (rule mp)
  have b2: "send_webhook_notification ''bob'' ''m1'' 7000 (Response 200) example_hook_db =
        ((200 :: int) = 200,
         example_hook_db\<lparr>webhooks := (webhooks example_hook_db)[0 := (webhooks example_hook_db ! 0)\<lparr>last_triggered := Some 7000\<rparr>],
           messages :=
             (case find_index_of (\<lambda>m. message_id m = ''m1'') (messages example_hook_db) of
                None \<Rightarrow> messages example_hook_db
              | Some j \<Rightarrow> (messages example_hook_db)[j := (messages example_hook_db ! j)\<lparr>webhook_sent := True\<rparr>])\<rparr>)"
    using B[THEN conjunct2, THEN conjunct1] reg by (rule mp)
  have c2: "send_webhook_notification ''bob'' ''m1'' 7000 (Response 404) example_hook_db =
        ((404 :: int) = 200,
         example_hook_db\<lparr>webhooks := (webhooks example_hook_db)[0 := (webhooks example_hook_db ! 0)\<lparr>last_triggered := Some 7000\<rparr>],
           messages :=
             (case find_index_of (\<lambda>m. message_id m = ''m1'') (messages example_hook_db) of
                None \<Rightarrow> messages example_hook_db
              | Some j \<Rightarrow> (messages example_hook_db)[j := (messages example_hook_db ! j)\<lparr>webhook_sent := True\<rparr>])\<rparr>)"
    using C[THEN conjunct2, THEN conjunct1] reg by (rule mp)
  have c3: "last_triggered (webhooks (snd (send_webhook_notification ''bob'' ''m1'' 7000 (Response 200) example_hook_db)) ! 0)
              = Some 7000 \<and>
            webhook_sent (messages (snd (send_webhook_notification ''bob'' ''m1'' 7000 (Response 200) example_hook_db)) ! 0)"
    using B[THEN conjunct2, THEN conjunct2, THEN conjunct1] reg msg by blast
  have c4: "fst (send_webhook_notification ''bob'' ''m1'' 7000 (Response 200) example_hook_db)"
    unfolding b2 by simp
  have c5: "\<not> fst (send_webhook_notification ''bob'' ''m1'' 7000 (Response 404) example_hook_db)"
    unfolding c2 by simp
  have c6: "snd (send_webhook_notification ''bob'' ''m1'' 7000 (Response 404) example_hook_db) =
            snd (send_webhook_notification ''bob'' ''m1'' 7000 (Response 200) example_hook_db)"
    unfolding b2 c2 by simp
  from c1 c3 c4 c5 c6 before show ?thesis by blast
qed

section \<open>Sending a file: the type check\<close>

lemma allowed_extensions_lower:
  "\<forall>e \<in> ALLOWED_EXTENSIONS. lower e = e \<and> lower (upper e) = e \<and> CHR ''.'' \<notin> set (upper e)"
  by code_simp

lemma card_ALLOWED_EXTENSIONS: "card ALLOWED_EXTENSIONS = 25"
  by (simp add: ALLOWED_EXTENSIONS_def)

lemma after_last_sep:
  assumes "name = stem @ c # ext" and "c \<notin> set ext"
  shows "rev (takeWhile (\<lambda>x. x \<noteq> c) (rev name)) = ext"
proof -
  have "rev name = rev ext @ c # rev stem" using assms(1) by simp
  moreover have "takeWhile (\<lambda>x. x \<noteq> c) (rev ext @ c # rev stem) = rev ext"
    using assms(2) by (auto simp: takeWhile_tail)
  ultimately show ?thesis by simp
qed

lemma split_at_last_sep:
  assumes "c \<in> set name"
  shows "\<exists>stem. name = stem @ c # rev (takeWhile (\<lambda>x. x \<noteq> c) (rev name))"
proof -
  let ?P = "\<lambda>x. x \<noteq> c"
  have ne: "dropWhile ?P (rev name) \<noteq> []"
    using assms by (simp add: dropWhile_eq_Nil_conv) 
  then have "hd (dropWhile ?P (rev name)) = c"
    using hd_dropWhile[of ?P "rev name"] by simp
  with ne have dw: "dropWhile ?P (rev name) = c # tl (dropWhile ?P (rev name))"
    by (cases "dropWhile ?P (rev name)") auto
  have "rev name = takeWhile ?P (rev name) @ dropWhile ?P (rev name)" by simp
  then have "rev name = takeWhile ?P (rev name) @ c # tl (dropWhile ?P (rev name))"
    using dw by simp
  then have "rev (rev name) = rev (takeWhile ?P (rev name) @ c # tl (dropWhile ?P (rev name)))"
    by (rule arg_cong)
  then have "name = rev (tl (dropWhile ?P (rev name))) @ c # rev (takeWhile ?P (rev name))"
    by simp
  then show ?thesis by blast
qed

lemma allowed_file_extension:
  "allowed_file name \<longleftrightarrow>
     CHR ''.'' \<in> set name \<and> lower (rev (takeWhile (\<lambda>c. c \<noteq> CHR ''.'') (rev name))) \<in> ALLOWED_EXTENSIONS"
  by (auto simp: allowed_file_def rsplit1_index simp del: One_nat_def)

lemma allowed_file_spec: "allowed_file name \<longleftrightarrow> has_allowed_extension name"
proof
  assume a: "allowed_file name"
  let ?ext = "rev (takeWhile (\<lambda>c. c \<noteq> CHR ''.'') (rev name))"
  from a have dot: "CHR ''.'' \<in> set name" and ext: "lower ?ext \<in> ALLOWED_EXTENSIONS"
    by (simp_all add: allowed_file_extension)
  from split_at_last_sep[OF dot] obtain stem where n: "name = stem @ CHR ''.'' # ?ext" by blast
  have nd: "CHR ''.'' \<notin> set ?ext"
    by (auto dest: set_takeWhileD)
  have "lower ?ext = lower (lower ?ext)"
    using ext allowed_extensions_lower by auto
  with n nd ext show "has_allowed_extension name"
    unfolding has_allowed_extension_def by blast
next
  assume "has_allowed_extension name"
  then obtain stem ext e where n: "name = stem @ CHR ''.'' # ext" and nd: "CHR ''.'' \<notin> set ext"
    and e: "e \<in> ALLOWED_EXTENSIONS" and le: "lower ext = lower e"
    unfolding has_allowed_extension_def by blast
  have "rev (takeWhile (\<lambda>c. c \<noteq> CHR ''.'') (rev name)) = ext"
    by (rule after_last_sep[OF n nd])
  moreover have "lower ext \<in> ALLOWED_EXTENSIONS"
    using e le allowed_extensions_lower by auto
  moreover have "CHR ''.'' \<in> set name" using n by simp
  ultimately show "allowed_file name" by (simp add: allowed_file_extension)
qed

lemma allowed_file_upper:
  assumes "e \<in> ALLOWED_EXTENSIONS"
  shows "allowed_file (stem @ ''.'' @ upper e)"
proof -
  from assms allowed_extensions_lower
  have "lower (upper e) = lower e" and "CHR ''.'' \<notin> set (upper e)" by auto
  with assms have "has_allowed_extension (stem @ CHR ''.'' # upper e)"
    unfolding has_allowed_extension_def by blast
  then show ?thesis by (simp add: allowed_file_spec)
qed


lemma send_file_accepts_allowed_only:
  assumes "fst (send_file now key ft mt sec body_length upl form s) = Inr m"
  shows "\<exists>f. upl = Some f \<and> allowed_file (filename f)"
proof (cases "require_api_key now key s")
  case (Inl e)
  with assms show ?thesis by (simp add: send_file_def with_api_key_def)
next
  case (Inr r)
  obtain i s0 where r: "r = (i, s0)" by (cases r)
  from assms have "fst (send_file_handler now ft mt sec body_length upl form i s0) = Inr m"
    by (simp add: send_file_def with_api_key_def Inr r)
  then show ?thesis
    by (auto simp: send_file_handler_def Let_def split: option.splits if_splits prod.splits)
qed

text \<open>
  Claim C9 as stated says that every \<open>sendFile\<close> call with a file name without a dot
  is rejected with the file-type-not-allowed error. The type check is the last check
  of \<open>send_file\<close> (line 515), so a call that fails an earlier one gets another answer:
  a file called README for a receiver that does not exist is answered with
  receiver-not-found.
\<close>

theorem C9_no_dot_other_error_counterexample:
  "CHR ''.'' \<notin> set (filename (example_upload ''README'' 1024)) \<and>
   fst (send_file 5000 (Some ''key-alice'') ''f9'' ''m9'' (\<lambda>n. n) 2048
          (Some (example_upload ''README'' 1024)) [(''receiver_id'', ''carol'')]
          (example_db 0 0 [])) = Inl ReceiverNotFound \<and>
   fst (send_file 5000 (Some ''key-alice'') ''f9'' ''m9'' (\<lambda>n. n) 2048
          (Some (example_upload ''README'' 1024)) [(''receiver_id'', ''carol'')]
          (example_db 0 0 [])) \<noteq> Inl FileTypeNotAllowed"
  by code_simp

text \<open>
  Claim C9, amended. The type check \<open>allowed_file\<close> holds exactly when the name
  contains a dot and what follows the last dot equals, case ignored, one of the 25
  extensions of the allow-list; a name without a dot fails it and an upper-case variant
  of an allowed extension passes it. A \<open>sendFile\<close> call is accepted only when its file
  passes the type check; a call that passes every earlier check (API key, body limit,
  a file with a name, receiver id, 30 MiB, quota, receiver exists) is rejected with the
  file-type-not-allowed error exactly when the file fails the type check.
\<close>

theorem C9_file_type_check:
  "(allowed_file name \<longleftrightarrow> has_allowed_extension name) \<and>
   card ALLOWED_EXTENSIONS = 25 \<and>
   (CHR ''.'' \<notin> set name \<longrightarrow> \<not> allowed_file name) \<and>
   (e \<in> ALLOWED_EXTENSIONS \<longrightarrow> allowed_file (stem @ ''.'' @ upper e)) \<and>
   ((\<exists>m. fst (send_file now key ft mt sec body_length upl form s) = Inr m) \<longrightarrow>
      (\<exists>f. upl = Some f \<and> allowed_file (filename f))) \<and>
   (require_api_key now key s = Inr (i, sa) \<and> body_length \<le> MAX_CONTENT_LENGTH \<and>
    upl = Some f \<and> filename f \<noteq> [] \<and>
    truthy_str (map_of form ''receiver_id'') \<and>
    content_length f \<le> MAX_FILE_SIZE \<and>
    storage_used (users s ! i) + content_length f \<le> MAX_USER_STORAGE \<and>
    find_index_of (\<lambda>u. Some (user_id u) = map_of form ''receiver_id'' \<and> is_active u) (users s) \<noteq> None
    \<longrightarrow> (fst (send_file now key ft mt sec body_length upl form s) = Inl FileTypeNotAllowed
           \<longleftrightarrow> \<not> allowed_file (filename f)))"
proof -
  have a: "allowed_file name \<longleftrightarrow> has_allowed_extension name"
    by (rule allowed_file_spec)
  have b: "CHR ''.'' \<notin> set name \<Longrightarrow> \<not> allowed_file name"
    by (simp add: allowed_file_def)
  have c: "e \<in> ALLOWED_EXTENSIONS \<Longrightarrow> allowed_file (stem @ ''.'' @ upper e)"
    by (rule allowed_file_upper)
  have d: "(\<exists>m. fst (send_file now key ft mt sec body_length upl form s) = Inr m) \<Longrightarrow>
      (\<exists>f. upl = Some f \<and> allowed_file (filename f))"
    using send_file_accepts_allowed_only by blast
  have e: "fst (send_file now key ft mt sec body_length upl form s) = Inl FileTypeNotAllowed
           \<longleftrightarrow> \<not> allowed_file (filename f)"
    if auth: "require_api_key now key s = Inr (i, sa)" and body: "body_length \<le> MAX_CONTENT_LENGTH"
      and fl: "upl = Some f" "filename f \<noteq> []"
      and rid: "truthy_str (map_of form ''receiver_id'')"
      and sz: "content_length f \<le> MAX_FILE_SIZE"
      and quota: "storage_used (users s ! i) + content_length f \<le> MAX_USER_STORAGE"
      and recv: "find_index_of (\<lambda>u. Some (user_id u) = map_of form ''receiver_id'' \<and> is_active u) (users s) \<noteq> None"
    unfolding send_file_after_checks[OF auth body fl rid sz recv, of ft mt sec]
    using quota by (simp add: Let_def split: prod.splits)
  show ?thesis
    using a b c d e card_ALLOWED_EXTENSIONS by blast
qed

text \<open>
  \<open>photo.JPG\<close> and \<open>archive.tar.7Z\<close> pass, \<open>README\<close> does not; sent by alice to bob,
  \<open>README\<close> is answered with file-type-not-allowed, and \<open>report.PDF\<close> is accepted.
\<close>

theorem C9_file_type_check_witness:
  "has_allowed_extension ''photo.JPG'' \<and>
   card ALLOWED_EXTENSIONS = 25 \<and>
   \<not> allowed_file ''README'' \<and>
   allowed_file (''archive.tar'' @ ''.'' @ upper ''7z'') \<and>
   fst (send_file 5000 (Some ''key-alice'') ''f9'' ''m9'' (\<lambda>n. n) 2048
          (Some (example_upload ''README'' 1024)) [(''receiver_id'', ''bob'')]
          (example_db 0 0 [])) = Inl FileTypeNotAllowed \<and>
   allowed_file (filename (example_upload ''report.PDF'' 1024))"
proof -
  let ?s = "example_db 0 0 []"
  let ?sa = "?s\<lparr>users := (users ?s)[0 := (users ?s ! 0)\<lparr>last_activity := 5000\<rparr>]\<rparr>"
  let ?form = "[(''receiver_id'', ''bob'')]"
  have jpg: "allowed_file ''photo.JPG''" by code_simp
  have nodot: "CHR ''.'' \<notin> set ''README''" by simp
  have seven: "''7z'' \<in> ALLOWED_EXTENSIONS" by (simp add: ALLOWED_EXTENSIONS_def)
  have auth: "require_api_key 5000 (Some ''key-alice'') ?s = Inr (0, ?sa)"
    by (simp add: require_api_key_def truthy_str_def example_db_def example_user_def)
  have pre: "(2048 :: int) \<le> MAX_CONTENT_LENGTH"
    "Some (example_upload ''README'' 1024) = Some (example_upload ''README'' 1024)"
    "filename (example_upload ''README'' 1024) \<noteq> []"
    "truthy_str (map_of ?form ''receiver_id'')"
    "content_length (example_upload ''README'' 1024) \<le> MAX_FILE_SIZE"
    "storage_used (users ?s ! 0) + content_length (example_upload ''README'' 1024) \<le> MAX_USER_STORAGE"
    "find_index_of (\<lambda>u. Some (user_id u) = map_of ?form ''receiver_id'' \<and> is_active u) (users ?s) \<noteq> None"
    by (simp_all add: example_upload_def truthy_str_def MAX_FILE_SIZE_def MAX_USER_STORAGE_def
          MAX_CONTENT_LENGTH_def example_db_def example_user_def)
  have pdf: "fst (send_file 5000 (Some ''key-alice'') ''f9'' ''m9'' (\<lambda>n. n) 2048
          (Some (example_upload ''report.PDF'' 1024)) ?form ?s) =
        Inr (projr (fst (send_file 5000 (Some ''key-alice'') ''f9'' ''m9'' (\<lambda>n. n) 2048
          (Some (example_upload ''report.PDF'' 1024)) ?form ?s)))"
    by code_simp
  have fn: "filename (example_upload ''README'' 1024) = ''README''"
    by (simp add: example_upload_def)
  note A = C9_file_type_check[where name = "''photo.JPG''" and e = "''7z''" and stem = "''archive.tar''"
         and now = 5000 and key = "Some ''key-alice''" and ft = "''f9''" and mt = "''m9''"
         and sec = "\<lambda>n. n" and body_length = 2048
         and upl = "Some (example_upload ''report.PDF'' 1024)" and form = ?form
         and s = ?s and i = 0 and sa = ?sa and f = "example_upload ''report.PDF'' 1024"]
  note B = C9_file_type_check[where name = "''README''" and e = "''7z''" and stem = "''archive.tar''"
         and now = 5000 and key = "Some ''key-alice''" and ft = "''f9''" and mt = "''m9''"
         and sec = "\<lambda>n. n" and body_length = 2048
         and upl = "Some (example_upload ''README'' 1024)" and form = ?form
         and s = ?s and i = 0 and sa = ?sa and f = "example_upload ''README'' 1024"]
  have c1: "has_allowed_extension ''photo.JPG''"
    using A[THEN conjunct1] jpg by (rule iffD1)
  have c2: "card ALLOWED_EXTENSIONS = 25"
    by (rule A[THEN conjunct2, THEN conjunct1])
  have c3: "\<not> allowed_file ''README''"
    using B[THEN conjunct2, THEN conjunct2, THEN conjunct1] nodot by (rule mp)
  have c4: "allowed_file (''archive.tar'' @ ''.'' @ upper ''7z'')"
    using A[THEN conjunct2, THEN conjunct2, THEN conjunct2, THEN conjunct1] seven by (rule mp)
  have "fst (send_file 5000 (Some ''key-alice'') ''f9'' ''m9'' (\<lambda>n. n) 2048
          (Some (example_upload ''README'' 1024)) ?form ?s) = Inl FileTypeNotAllowed
        \<longleftrightarrow> \<not> allowed_file (filename (example_upload ''README'' 1024))"
    using B[THEN conjunct2, THEN conjunct2, THEN conjunct2, THEN conjunct2, THEN conjunct2] auth pre
    by blast
  then have c5: "fst (send_file 5000 (Some ''key-alice'') ''f9'' ''m9'' (\<lambda>n. n) 2048
          (Some (example_upload ''README'' 1024)) ?form ?s) = Inl FileTypeNotAllowed"
    using c3 fn by simp
  have "\<exists>f. Some (example_upload ''report.PDF'' 1024) = Some f \<and> allowed_file (filename f)"
    using A[THEN conjunct2, THEN conjunct2, THEN conjunct2, THEN conjunct2, THEN conjunct1] pdf
    by blast
  then have c6: "allowed_file (filename (example_upload ''report.PDF'' 1024))"
    by simp
  from c1 c2 c3 c4 c5 c6 show ?thesis by blast
qed

section \<open>What the routes do to stored messages\<close>

lemma require_api_key_messages:
  "require_api_key now key s = Inr (i, s0) \<Longrightarrow> messages s0 = messages s"
  using require_api_key_Inr(2) by fastforce

lemma with_api_key_frame:
  assumes refl: "R (messages s) (messages s)"
    and h: "\<And>i s0. messages s0 = messages s \<Longrightarrow> R (messages s) (messages (snd (handler i s0)))"
  shows "R (messages s) (messages (snd (with_api_key now key s handler)))"
proof (cases "require_api_key now key s")
  case (Inl e)
  then show ?thesis using refl by (simp add: with_api_key_def)
next
  case (Inr r)
  obtain i s0 where r: "r = (i, s0)" by (cases r)
  from Inr r have "messages s0 = messages s" by (simp add: require_api_key_messages)
  from h[OF this, of i] show ?thesis by (simp add: with_api_key_def Inr r)
qed

lemma register_user_messages: "messages (snd (register_user now token data s)) = messages s"
  by (simp add: register_user_def Let_def)

lemma send_message_handler_messages:
  "messages (snd (send_message_handler now token data i s)) = messages s \<or>
   (\<exists>m. messages (snd (send_message_handler now token data i s)) = messages s @ [m])"
  by (simp add: send_message_handler_def Let_def split: prod.splits)

lemma send_file_handler_messages:
  "messages (snd (send_file_handler now ft mt sec body_length upl form i s)) = messages s \<or>
   (\<exists>m. messages (snd (send_file_handler now ft mt sec body_length upl form i s)) = messages s @ [m])"
  by (simp add: send_file_handler_def Let_def split: prod.splits option.splits)

lemma without_poll_marks_mark_delivered [simp]:
  "without_poll_marks (mark_delivered m) = without_poll_marks m"
  by (simp add: without_poll_marks_def mark_delivered_def)

lemma get_updates_handler_messages:
  "map without_poll_marks (messages (snd (get_updates_handler offset limit timeout i s)))
     = map without_poll_marks (messages s)"
  by (simp add: get_updates_handler_rows Let_def)

lemma get_chat_history_handler_messages:
  "messages (snd (get_chat_history_handler other limit offset i s)) = messages s"
  by (simp add: get_chat_history_handler_def Let_def)

lemma download_file_handler_messages:
  "messages (snd (download_file_handler now key fid i s)) =
     (case find_index_of (\<lambda>m. file_id m = Some fid) (messages s) of
        None \<Rightarrow> messages s
      | Some j \<Rightarrow>
          if (sender_id (messages s ! j) \<noteq> user_id (users s ! i) \<and>
              receiver_id (messages s ! j) \<noteq> user_id (users s ! i)) \<or>
             \<not> file_on_disk (messages s ! j) s
          then messages s
          else (messages s)[j := (messages s ! j)\<lparr>read_count := read_count (messages s ! j) + 1\<rparr>])"
proof (cases "find_index_of (\<lambda>m. file_id m = Some fid) (messages s)")
  case None
  then show ?thesis by (simp add: download_file_handler_def)
next
  case (Some j)
  let ?m = "messages s ! j"
  let ?s1 = "s\<lparr>messages := (messages s)[j := ?m\<lparr>read_count := read_count ?m + 1\<rparr>]\<rparr>"
  have "messages (snd (case require_api_key now key ?s1 of
                         Inl e \<Rightarrow> (Inl e, ?s1)
                       | Inr (k, s2) \<Rightarrow> (Inl ServerError :: error + string, s2))) = messages ?s1"
  proof (cases "require_api_key now key ?s1")
    case (Inl e)
    then show ?thesis by simp
  next
    case (Inr r)
    obtain k s2 where r: "r = (k, s2)" by (cases r)
    from require_api_key_messages[OF Inr[unfolded r]] show ?thesis by (simp add: Inr r)
  qed
  then show ?thesis
    by (simp add: download_file_handler_def Some Let_def)
qed

lemma download_file_messages:
  "messages (snd (download_file now key fid s)) = messages s \<or>
   (\<exists>j < length (messages s).
      messages (snd (download_file now key fid s)) =
        (messages s)[j := (messages s ! j)\<lparr>read_count := read_count (messages s ! j) + 1\<rparr>])"
  unfolding download_file_def
proof (rule with_api_key_frame[where R = "\<lambda>a b. b = a \<or>
          (\<exists>j < length a. b = a[j := (a ! j)\<lparr>read_count := read_count (a ! j) + 1\<rparr>])"])
  show "messages s = messages s \<or>
        (\<exists>j < length (messages s). messages s =
           (messages s)[j := (messages s ! j)\<lparr>read_count := read_count (messages s ! j) + 1\<rparr>])"
    by simp
next
  fix i and s0 :: db assume ms: "messages s0 = messages s"
  show "messages (snd (download_file_handler now key fid i s0)) = messages s \<or>
        (\<exists>j < length (messages s). messages (snd (download_file_handler now key fid i s0)) =
           (messages s)[j := (messages s ! j)\<lparr>read_count := read_count (messages s ! j) + 1\<rparr>])"
  proof (cases "find_index_of (\<lambda>m. file_id m = Some fid) (messages s)")
    case None
    then show ?thesis by (simp add: download_file_handler_messages ms)
  next
    case (Some j)
    then have "j < length (messages s)" by (simp add: find_index_of_Some)
    then show ?thesis
      unfolding download_file_handler_messages ms Some by auto
  qed
qed

lemma download_file_adds_one:
  assumes auth: "require_api_key now key s = Inr (i, sa)"
    and found: "find_index_of (\<lambda>m. file_id m = Some fid) (messages s) = Some j"
    and party: "sender_id (messages s ! j) = user_id (users s ! i) \<or>
                receiver_id (messages s ! j) = user_id (users s ! i)"
    and there: "file_on_disk (messages s ! j) s"
  shows "messages (snd (download_file now key fid s)) =
           (messages s)[j := (messages s ! j)\<lparr>read_count := read_count (messages s ! j) + 1\<rparr>]"
proof -
  note a = require_api_key_Inr[OF auth]
  have same: "messages sa = messages s" "disk sa = disk s" "user_id (users sa ! i) = user_id (users s ! i)"
    using a by simp_all
  have disk: "file_on_disk (messages s ! j) sa = file_on_disk (messages s ! j) s"
    by (simp add: file_on_disk_def same split: option.splits)
  have "download_file now key fid s = download_file_handler now key fid i sa"
    by (simp add: download_file_def with_api_key_def auth)
  then show ?thesis
    using found party there
    by (auto simp: download_file_handler_messages same disk)
qed

lemma set_webhook_handler_messages:
  "messages (snd (set_webhook_handler now data i s)) = messages s"
  by (simp add: set_webhook_handler_def Let_def)

lemma map_upd_first:
  assumes "\<And>x. g (f x) = g x"
  shows "map g (upd_first P f xs) = map g xs"
  by (induction xs) (simp_all add: assms)

lemma send_webhook_notification_messages:
  "map without_webhook_mark (messages (snd (send_webhook_notification uid mid now outcome s)))
     = map without_webhook_mark (messages s)"
  by (simp add: send_webhook_notification_def Let_def map_upd_first without_webhook_mark_def
        split: option.splits http_outcome.splits)

text \<open>
  Claim C7 as stated says that a file download changes no field of a stored message.
  \<open>download_file\<close> adds one to \<open>read_count\<close> of the message whose file is asked for
  and commits (lines 699-700), before it comes to sending the file: bob asks for the
  file alice sent him, and the counter of the stored message goes from 0 to 1.
\<close>

theorem C7_download_changes_read_count_counterexample:
  "map read_count (messages example_file_db) = [0] \<and>
   fst (download_file 5000 (Some ''key-bob'') ''f1'' example_file_db) = Inl ServerError \<and>
   map read_count (messages (snd (download_file 5000 (Some ''key-bob'') ''f1'' example_file_db))) = [1] \<and>
   messages (snd (download_file 5000 (Some ''key-bob'') ''f1'' example_file_db)) \<noteq> messages example_file_db"
  by code_simp

text \<open>
  Claim C7, amended. A stored message is changed only in these ways: a poll may change
  \<open>is_delivered\<close> and \<open>read_count\<close>, a webhook notification may change
  \<open>webhook_sent\<close>, and a download request adds one to \<open>read_count\<close> of one message
  or changes nothing; each leaves every other field of every stored message as it was,
  and the rows in place. A download request with a valid API key, for the file of a
  stored message, by its sender or receiver, with the file on disk, adds one to
  \<open>read_count\<close> of that message. Sending a text or a file at most appends one row;
  registering a user, reading the chat history and setting a webhook leave the message
  table as it is; the expiry sweep and the storage limits only delete rows.
\<close>

theorem C7_message_frame:
  "map without_poll_marks (messages (snd (get_updates now key offset limit timeout s)))
     = map without_poll_marks (messages s) \<and>
   map without_webhook_mark (messages (snd (send_webhook_notification uid mid now outcome s)))
     = map without_webhook_mark (messages s) \<and>
   (messages (snd (download_file now key fid s)) = messages s \<or>
    (\<exists>j < length (messages s).
       messages (snd (download_file now key fid s)) =
         (messages s)[j := (messages s ! j)\<lparr>read_count := read_count (messages s ! j) + 1\<rparr>])) \<and>
   (require_api_key now key s = Inr (i, sa) \<and>
    find_index_of (\<lambda>m. file_id m = Some fid) (messages s) = Some k \<and>
    (sender_id (messages s ! k) = user_id (users s ! i) \<or>
     receiver_id (messages s ! k) = user_id (users s ! i)) \<and>
    file_on_disk (messages s ! k) s \<longrightarrow>
      messages (snd (download_file now key fid s)) =
        (messages s)[k := (messages s ! k)\<lparr>read_count := read_count (messages s ! k) + 1\<rparr>]) \<and>
   (messages (snd (send_message now key token data s)) = messages s \<or>
    (\<exists>m. messages (snd (send_message now key token data s)) = messages s @ [m])) \<and>
   (messages (snd (send_file now key ft mt sec body_length upl form s)) = messages s \<or>
    (\<exists>m. messages (snd (send_file now key ft mt sec body_length upl form s)) = messages s @ [m])) \<and>
   messages (snd (register_user now token data s)) = messages s \<and>
   messages (snd (get_chat_history now key other limit offset s)) = messages s \<and>
   messages (snd (set_webhook now key data s)) = messages s \<and>
   rows_only_deleted s (cleanup_old_messages now s) \<and>
   rows_only_deleted s (enforce_storage_limits s)"
proof -
  have poll: "map without_poll_marks (messages (snd (get_updates now key offset limit timeout s)))
                = map without_poll_marks (messages s)"
    unfolding get_updates_def
    by (rule with_api_key_frame[where R = "\<lambda>a b. map without_poll_marks b = map without_poll_marks a"])
       (simp_all add: get_updates_handler_messages)
  have hook: "map without_webhook_mark (messages (snd (send_webhook_notification uid mid now outcome s)))
                = map without_webhook_mark (messages s)"
    by (rule send_webhook_notification_messages)
  have dl: "messages (snd (download_file now key fid s)) = messages s \<or>
    (\<exists>j < length (messages s).
       messages (snd (download_file now key fid s)) =
         (messages s)[j := (messages s ! j)\<lparr>read_count := read_count (messages s ! j) + 1\<rparr>])"
    by (rule download_file_messages)
  have dl1: "require_api_key now key s = Inr (i, sa) \<and>
    find_index_of (\<lambda>m. file_id m = Some fid) (messages s) = Some k \<and>
    (sender_id (messages s ! k) = user_id (users s ! i) \<or>
     receiver_id (messages s ! k) = user_id (users s ! i)) \<and>
    file_on_disk (messages s ! k) s \<longrightarrow>
      messages (snd (download_file now key fid s)) =
        (messages s)[k := (messages s ! k)\<lparr>read_count := read_count (messages s ! k) + 1\<rparr>]"
    using download_file_adds_one[of now key s i sa fid k] by blast
  have sm: "messages (snd (send_message now key token data s)) = messages s \<or>
            (\<exists>m. messages (snd (send_message now key token data s)) = messages s @ [m])"
    unfolding send_message_def
  proof (rule with_api_key_frame[where R = "\<lambda>a b. b = a \<or> (\<exists>m. b = a @ [m])"])
    show "messages s = messages s \<or> (\<exists>m. messages s = messages s @ [m])" by simp
  next
    fix i and s0 :: db assume "messages s0 = messages s"
    with send_message_handler_messages[of now token data i s0]
    show "messages (snd (send_message_handler now token data i s0)) = messages s \<or>
          (\<exists>m. messages (snd (send_message_handler now token data i s0)) = messages s @ [m])"
      by simp
  qed
  have sf: "messages (snd (send_file now key ft mt sec body_length upl form s)) = messages s \<or>
            (\<exists>m. messages (snd (send_file now key ft mt sec body_length upl form s)) = messages s @ [m])"
    unfolding send_file_def
  proof (rule with_api_key_frame[where R = "\<lambda>a b. b = a \<or> (\<exists>m. b = a @ [m])"])
    show "messages s = messages s \<or> (\<exists>m. messages s = messages s @ [m])" by simp
  next
    fix i and s0 :: db assume "messages s0 = messages s"
    with send_file_handler_messages[of now ft mt sec body_length upl form i s0]
    show "messages (snd (send_file_handler now ft mt sec body_length upl form i s0)) = messages s \<or>
          (\<exists>m. messages (snd (send_file_handler now ft mt sec body_length upl form i s0)) = messages s @ [m])"
      by simp
  qed
  have reg: "messages (snd (register_user now token data s)) = messages s"
    by (rule register_user_messages)
  have hist: "messages (snd (get_chat_history now key other limit offset s)) = messages s"
    unfolding get_chat_history_def
    by (rule with_api_key_frame[where R = "\<lambda>a b. b = a"])
       (simp_all add: get_chat_history_handler_messages)
  have wh: "messages (snd (set_webhook now key data s)) = messages s"
    unfolding set_webhook_def
    by (rule with_api_key_frame[where R = "\<lambda>a b. b = a"])
       (simp_all add: set_webhook_handler_messages)
  note del = cleanup_old_messages_rows[of s now] enforce_storage_limits_rows[of s]
  show ?thesis
    by (intro conjI) (rule poll hook dl dl1 sm sf reg hist wh del)+
qed

text \<open>
  On the store with one file from alice to bob: bob's download request adds one to the
  message's \<open>read_count\<close>; his poll leaves the message equal up to the fields named
  and marks it delivered; the sweep a day later deletes it.
\<close>

theorem C7_message_frame_witness:
  "messages (snd (download_file 5000 (Some ''key-bob'') ''f1'' example_file_db)) =
     (messages example_file_db)[0 := (messages example_file_db ! 0)
        \<lparr>read_count := read_count (messages example_file_db ! 0) + 1\<rparr>] \<and>
   map without_poll_marks (messages (snd (get_updates 5000 (Some ''key-bob'') None None None example_file_db)))
     = map without_poll_marks (messages example_file_db) \<and>
   map is_delivered (messages (snd (get_updates 5000 (Some ''key-bob'') None None None example_file_db))) = [True] \<and>
   rows_only_deleted example_file_db (cleanup_old_messages 90000 example_file_db) \<and>
   messages (cleanup_old_messages 90000 example_file_db) = []"
proof -
  let ?s = example_file_db
  let ?sa = "?s\<lparr>users := (users ?s)[1 := (users ?s ! 1)\<lparr>last_activity := 5000\<rparr>]\<rparr>"
  note A = C7_message_frame[where s = example_file_db and now = 5000 and key = "Some ''key-bob''"
      and fid = "''f1''" and offset = None and limit = None and timeout = None
      and i = 1 and sa = ?sa and k = 0]
  note B = C7_message_frame[where s = example_file_db and now = 90000]
  have auth: "require_api_key 5000 (Some ''key-bob'') ?s = Inr (1, ?sa)"
    by (simp add: require_api_key_def truthy_str_def example_file_db_def example_db_def example_user_def)
  have found: "find_index_of (\<lambda>m. file_id m = Some ''f1'') (messages ?s) = Some 0"
    by (simp add: example_file_db_def example_db_def example_file_def)
  have party: "receiver_id (messages ?s ! 0) = user_id (users ?s ! 1)"
    by (simp add: example_file_db_def example_db_def example_file_def example_user_def)
  have there: "file_on_disk (messages ?s ! 0) ?s"
    by code_simp
  have d: "map is_delivered (messages (snd (get_updates 5000 (Some ''key-bob'') None None None example_file_db))) = [True]"
    by code_simp
  have e: "messages (cleanup_old_messages 90000 example_file_db) = []"
    by code_simp
  have c1: "messages (snd (download_file 5000 (Some ''key-bob'') ''f1'' example_file_db)) =
     (messages example_file_db)[0 := (messages example_file_db ! 0)
        \<lparr>read_count := read_count (messages example_file_db ! 0) + 1\<rparr>]"
    using A[THEN conjunct2, THEN conjunct2, THEN conjunct2, THEN conjunct1] auth found party there
    by blast
  from c1 A[THEN conjunct1]
       B[THEN conjunct2, THEN conjunct2, THEN conjunct2, THEN conjunct2, THEN conjunct2,
         THEN conjunct2, THEN conjunct2, THEN conjunct2, THEN conjunct2, THEN conjunct1] d e
  show ?thesis by blast
qed

end
